theory Spec2Isabelle
  imports Main "HOL-Library.Word" "HOL-Library.Sublist"
begin

section \<open>Values shared by the bootstrap orchestrator and the manifest deployer\<close>

text \<open>
  Go's \<open>int32\<close> is a 32-bit word read in two's complement; comparisons in the source
  are signed, so the model compares with \<open>sint\<close>.
\<close>

type_synonym int32 = "32 word"
type_synonym int64 = "64 word"

text \<open>
  The content of an \<open>unstructured.Unstructured\<close> object and of a decoded YAML document:
  \<open>map[string]interface{}\<close> is a finite map from keys to dynamically typed values, a
  type assertion \<open>v.(T)\<close> is a case distinction on the constructor. A Go \<open>[]string\<close>
  stored in such a map is written as the \<open>JList\<close> of its \<open>JStr\<close> elements.
\<close>

datatype jv =
    JNull
  | JBool bool
  | JInt32 int32
  | JInt64 int64
  | JStr string
  | JList "jv list"
  | JMap "string \<Rightarrow> jv option"

type_synonym obj = "string \<Rightarrow> jv option"

text \<open>The comma-ok type assertions of the source, on a looked-up value.\<close>

fun asMap :: "jv option \<Rightarrow> obj option" where
  "asMap (Some (JMap m)) = Some m"
| "asMap _ = None"

fun asList :: "jv option \<Rightarrow> jv list option" where
  "asList (Some (JList xs)) = Some xs"
| "asList _ = None"

text \<open>\<open>s, _ := v.(string)\<close>: the zero value \<open>""\<close> when the assertion fails.\<close>

fun asStringOrEmpty :: "jv option \<Rightarrow> string" where
  "asStringOrEmpty (Some (JStr s)) = s"
| "asStringOrEmpty _ = []"

subsection \<open>Errors\<close>

datatype status_reason = AlreadyExists | NotFound | Conflict | OtherReason

text \<open>
  Go error values. \<open>Errorf t\<close> is \<open>fmt.Errorf\<close> without \<open>%w\<close>, its text already
  formatted; \<open>Wrap p e\<close> is \<open>fmt.Errorf(p + ": %w", e)\<close>; the two context errors are
  \<open>context.Canceled\<close> and \<open>context.DeadlineExceeded\<close>; \<open>StatusError\<close> is the API
  server's error with its reason and message; \<open>CorruptInputError\<close> is what
  \<open>base64\<close> decoding returns; \<open>OtherError\<close> is any other library error with its
  message.
\<close>

datatype err =
    Errorf string
  | Wrap string err
  | ContextCanceled
  | ContextDeadlineExceeded
  | StatusError status_reason string
  | CorruptInputError
  | OtherError string

text \<open>
  The \<open>Error()\<close> text. For \<open>CorruptInputError\<close> Go appends the offset of the
  offending byte, which nothing here reads.
\<close>

primrec Error :: "err \<Rightarrow> string" where
  "Error (Errorf t) = t"
| "Error (Wrap p e) = p @ '': '' @ Error e"
| "Error ContextCanceled = ''context canceled''"
| "Error ContextDeadlineExceeded = ''context deadline exceeded''"
| "Error (StatusError r m) = m"
| "Error CorruptInputError = ''illegal base64 data''"
| "Error (OtherError m) = m"

text \<open>\<open>errors.IsAlreadyExists\<close> on the errors the dynamic client returns.\<close>

fun IsAlreadyExists :: "err \<Rightarrow> bool" where
  "IsAlreadyExists (StatusError AlreadyExists m) = True"
| "IsAlreadyExists _ = False"

text \<open>A run-time panic of the Go program.\<close>

datatype panic = NilPointerDereference

subsection \<open>What the program prints and logs\<close>

datatype farg = S string | D int32 | B bool

datatype level = LPhase | LInfo | LDebug | LWarn | LSuccess | LError

datatype logv = VStr string | VErr err | VAny "jv option" | VLen nat

text \<open>
  One observable action of a run: a line on standard output (\<open>fmt.Println\<close>, or
  \<open>fmt.Printf\<close> with its format and arguments), a logger call with its key/value
  arguments, one of the orchestrator's phases acting on the outside world, or a call
  that creates a directory or writes a file (path, content, permission bits).
\<close>

datatype phase_action =
    CreateKINDCluster | DeleteKINDCluster | InjectHostAliases | BuildAndLoadImages
  | CreateClients | DeployCRDs | CreateNamespaceAndSecrets | DeployControllers
  | CreateProviderConfig | CreateClusterBootstrap | WatchBootstrap | SaveClusterCredentials

datatype event =
    Println string
  | Printf string "farg list"
  | Log level string "(string \<times> logv) list"
  | Act phase_action
  | MkdirAll string nat
  | WriteFile string string nat

section \<open>Configuration model (config.go)\<close>

record DiskConfig =
  dk_SizeGB :: int32
  dk_StorageClass :: string

record NodePoolConfig =
  np_Replicas :: int32
  np_CPU :: int32
  np_MemoryMB :: int32
  np_DiskGB :: int32
  np_ExtraDisks :: "DiskConfig list"

record ClusterConfig =
  cl_Name :: string
  cl_Topology :: string
  cl_ControlPlane :: NodePoolConfig
  cl_Workers :: NodePoolConfig

record NetworkConfig =
  nw_PodCIDR :: string
  nw_ServiceCIDR :: string
  nw_VIP :: string

record TalosConfig =
  tl_Version :: string
  tl_Schematic :: string

record LoadBalancerConfig =
  lb_Type :: string
  lb_AddressPool :: string

record CAPIConfig =
  capi_Enabled :: bool
  capi_Version :: string

record ButlerControllerConfig =
  bc_Enabled :: bool
  bc_Version :: string
  bc_Image :: string

record ConsoleIngressConfig =
  ing_Enabled :: bool
  ing_Host :: string
  ing_ClassName :: string
  ing_TLS :: bool
  ing_TLSSecretName :: string

record ConsoleAuthConfig =
  auth_AdminPassword :: string
  auth_JWTSecret :: string

record ConsoleConfig =
  con_Enabled :: bool
  con_Version :: string
  con_Ingress :: ConsoleIngressConfig
  con_Auth :: ConsoleAuthConfig

text \<open>
  \<open>CNIConfig\<close>, \<open>StorageConfig\<close> and \<open>GitOpsConfig\<close> have the single field
  \<open>Type\<close>; the three fields below are those \<open>Type\<close>s.
\<close>

record AddonsConfig =
  ad_CNI_Type :: string
  ad_Storage_Type :: string
  ad_LoadBalancer :: LoadBalancerConfig
  ad_GitOps_Type :: string
  ad_CAPI :: CAPIConfig
  ad_ButlerController :: ButlerControllerConfig
  ad_Console :: ConsoleConfig

record HarvesterProviderConfig =
  hv_KubeconfigPath :: string
  hv_Namespace :: string
  hv_NetworkName :: string
  hv_ImageName :: string

record NutanixProviderConfig =
  nx_Endpoint :: string
  nx_Port :: int32
  nx_Insecure :: bool
  nx_Username :: string
  nx_Password :: string
  nx_ClusterUUID :: string
  nx_SubnetUUID :: string
  nx_ImageUUID :: string
  nx_StorageContainerUUID :: string
  nx_HostAliases :: "string list"

record ProxmoxProviderConfig =
  px_Endpoint :: string
  px_Insecure :: bool
  px_Username :: string
  px_Password :: string
  px_Nodes :: "string list"
  px_Storage :: string
  px_TemplateID :: int32
  px_VMIDStart :: int32
  px_VMIDEnd :: int32
  px_HostAliases :: "string list"

text \<open>The three pointers of \<open>ProviderConfig\<close>: \<open>None\<close> is \<open>nil\<close>.\<close>

record ProviderConfig =
  pc_Harvester :: "HarvesterProviderConfig option"
  pc_Nutanix :: "NutanixProviderConfig option"
  pc_Proxmox :: "ProxmoxProviderConfig option"

record Config =
  Provider :: string
  Cluster :: ClusterConfig
  Network :: NetworkConfig
  Talos :: TalosConfig
  Addons :: AddonsConfig
  ProviderConfig :: ProviderConfig

text \<open>
  What \<open>LoadConfig\<close> reads from outside: the outcome of \<open>viper.Unmarshal\<close> (an error,
  or the configuration as the file and flags give it), the outcome of
  \<open>os.UserHomeDir\<close>, and the library functions \<open>filepath.Join\<close> and the \<open>%q\<close>
  quoting of \<open>fmt\<close>.
\<close>

record load_env =
  viper_Unmarshal :: "err + Config"
  os_UserHomeDir :: "err + string"
  filepath_Join :: "string \<Rightarrow> string \<Rightarrow> string"
  fmt_q :: "string \<Rightarrow> string"

definition expandPath :: "load_env \<Rightarrow> string \<Rightarrow> string" where
  "expandPath env path =
     (if length path > 0 \<and> hd path = CHR ''~'' then
        (case os_UserHomeDir env of
           Inl e \<Rightarrow> path
         | Inr home \<Rightarrow> filepath_Join env home (tl path))
      else path)"

definition IsSingleNode :: "Config \<Rightarrow> bool" where
  "IsSingleNode c = (cl_Topology (Cluster c) = ''single-node'')"

text \<open>
  \<open>if field == "" { field = default }\<close>, the shape of every default of
  \<open>LoadConfig\<close>.
\<close>

definition orDefault :: "string \<Rightarrow> string \<Rightarrow> string" where
  "orDefault v d = (if v = [] then d else v)"

text \<open>
  The eight defaults of \<open>LoadConfig\<close>. Each statement of the source tests and
  assigns one field that no other statement reads, so the sequence is the one record
  update below.
\<close>

definition setDefaults :: "Config \<Rightarrow> Config" where
  "setDefaults cfg =
     cfg\<lparr>Network := (Network cfg)\<lparr>
            nw_PodCIDR := orDefault (nw_PodCIDR (Network cfg)) ''10.244.0.0/16'',
            nw_ServiceCIDR := orDefault (nw_ServiceCIDR (Network cfg)) ''10.96.0.0/12''\<rparr>,
         Talos := (Talos cfg)\<lparr>tl_Version := orDefault (tl_Version (Talos cfg)) ''v1.9.0''\<rparr>,
         Addons := (Addons cfg)\<lparr>
            ad_CNI_Type := orDefault (ad_CNI_Type (Addons cfg)) ''cilium'',
            ad_Storage_Type := orDefault (ad_Storage_Type (Addons cfg)) ''longhorn'',
            ad_LoadBalancer := (ad_LoadBalancer (Addons cfg))\<lparr>
               lb_Type := orDefault (lb_Type (ad_LoadBalancer (Addons cfg))) ''metallb''\<rparr>,
            ad_GitOps_Type := orDefault (ad_GitOps_Type (Addons cfg)) ''flux''\<rparr>,
         Cluster := (Cluster cfg)\<lparr>
            cl_Topology := orDefault (cl_Topology (Cluster cfg)) ''ha''\<rparr>\<rparr>"

text \<open>
  Single-node enforcement: the replica count of the control plane becomes 1, with a
  warning on standard output when it was larger; the workers are not touched.
\<close>

definition enforceSingleNode :: "Config \<Rightarrow> Config \<times> event list" where
  "enforceSingleNode cfg =
     (if cl_Topology (Cluster cfg) = ''single-node'' then
        (if np_Replicas (cl_ControlPlane (Cluster cfg)) \<noteq> 1 then
           (cfg\<lparr>Cluster := (Cluster cfg)\<lparr>cl_ControlPlane :=
                  (cl_ControlPlane (Cluster cfg))\<lparr>np_Replicas := 1\<rparr>\<rparr>\<rparr>,
            (if 1 <s np_Replicas (cl_ControlPlane (Cluster cfg))
             then [Printf ''Warning: single-node topology forces controlPlane.replicas=1 (was %d)\<newline>''
                     [D (np_Replicas (cl_ControlPlane (Cluster cfg)))]]
             else []))
         else (cfg, []))
      else (cfg, []))"

definition consoleDefaults :: "Config \<Rightarrow> Config" where
  "consoleDefaults cfg =
     (if con_Enabled (ad_Console (Addons cfg)) then
        (let c1 = (if con_Version (ad_Console (Addons cfg)) = []
                   then cfg\<lparr>Addons := (Addons cfg)\<lparr>ad_Console :=
                          (ad_Console (Addons cfg))\<lparr>con_Version := ''latest''\<rparr>\<rparr>\<rparr>
                   else cfg);
             ing = con_Ingress (ad_Console (Addons c1))
         in if ing_Enabled ing \<and> ing_Host ing = []
            then c1\<lparr>Addons := (Addons c1)\<lparr>ad_Console := (ad_Console (Addons c1))\<lparr>con_Ingress :=
                   ing\<lparr>ing_Host := ''butler.'' @ cl_Name (Cluster c1) @ ''.local''\<rparr>\<rparr>\<rparr>\<rparr>
            else c1)
      else cfg)"

definition providerDefaults :: "load_env \<Rightarrow> Config \<Rightarrow> Config" where
  "providerDefaults env cfg =
     (let c1 = (case pc_Nutanix (ProviderConfig cfg) of
                  Some nx \<Rightarrow>
                    if Provider cfg = ''nutanix'' \<and> nx_Port nx = 0
                    then cfg\<lparr>ProviderConfig := (ProviderConfig cfg)\<lparr>pc_Nutanix :=
                           Some (nx\<lparr>nx_Port := 9440\<rparr>)\<rparr>\<rparr>
                    else cfg
                | None \<Rightarrow> cfg)
      in (case pc_Harvester (ProviderConfig c1) of
            Some hv \<Rightarrow>
              if hv_KubeconfigPath hv \<noteq> []
              then c1\<lparr>ProviderConfig := (ProviderConfig c1)\<lparr>pc_Harvester :=
                     Some (hv\<lparr>hv_KubeconfigPath := expandPath env (hv_KubeconfigPath hv)\<rparr>)\<rparr>\<rparr>
              else c1
          | None \<Rightarrow> c1))"

text \<open>
  \<open>LoadConfig\<close>: the result and what it printed. The four steps above are the blocks
  of the one source function, in its order; the topology check sits between the
  defaults and the enforcement.
\<close>

definition LoadConfig :: "load_env \<Rightarrow> (err + Config) \<times> event list" where
  "LoadConfig env =
     (case viper_Unmarshal env of
        Inl e \<Rightarrow> (Inl (Wrap ''unmarshaling config'' e), [])
      | Inr cfg0 \<Rightarrow>
          (let cfg = setDefaults cfg0 in
           if cl_Topology (Cluster cfg) \<noteq> ''single-node'' \<and> cl_Topology (Cluster cfg) \<noteq> ''ha''
           then (Inl (Errorf (''invalid topology '' @ fmt_q env (cl_Topology (Cluster cfg))
                        @ '', must be 'single-node' or 'ha'' @ [CHR 0x27])), [])
           else (let (cfg', out) = enforceSingleNode cfg
                 in (Inr (providerDefaults env (consoleDefaults cfg')), out))))"

section \<open>Intent builder (orchestrator.go)\<close>

definition butlerNamespace :: string where
  "butlerNamespace = ''butler-system''"

definition kindClusterName :: string where
  "kindClusterName = ''butler-bootstrap''"

definition butlerAPIGroup :: string where
  "butlerAPIGroup = ''butler.butlerlabs.dev''"

definition butlerAPIVersion :: string where
  "butlerAPIVersion = ''v1alpha1''"

text \<open>
  \<open>unstructured.NestedFieldNoCopy\<close>: follow a path of keys through nested maps;
  \<open>None\<close> when a key is missing or a value on the way is not a map.
\<close>

fun NestedField :: "obj \<Rightarrow> string list \<Rightarrow> jv option" where
  "NestedField m [] = Some (JMap m)"
| "NestedField m [k] = m k"
| "NestedField m (k # ks) = (case m k of Some (JMap m') \<Rightarrow> NestedField m' ks | _ \<Rightarrow> None)"

definition buildConsoleConfig :: "ConsoleConfig \<Rightarrow> obj" where
  "buildConsoleConfig cfg =
     (if \<not> con_Enabled cfg then [''enabled'' \<mapsto> JBool False]
      else
        (let result = [''enabled'' \<mapsto> JBool True, ''version'' \<mapsto> JStr (con_Version cfg)]
         in if ing_Enabled (con_Ingress cfg)
            then result(''ingress'' \<mapsto> JMap
                   [''enabled'' \<mapsto> JBool True,
                    ''host'' \<mapsto> JStr (ing_Host (con_Ingress cfg)),
                    ''className'' \<mapsto> JStr (ing_ClassName (con_Ingress cfg)),
                    ''tls'' \<mapsto> JBool (ing_TLS (con_Ingress cfg)),
                    ''tlsSecretName'' \<mapsto> JStr (ing_TLSSecretName (con_Ingress cfg))])
            else result))"

text \<open>
  \<open>buildProviderConfigUnstructured\<close> reads through the provider pointer that matches
  \<open>cfg.Provider\<close> without a nil check: a nil pointer is a panic.
\<close>

definition buildProviderConfigUnstructured :: "Config \<Rightarrow> panic + obj" where
  "buildProviderConfigUnstructured cfg =
     (let spec0 = [''provider'' \<mapsto> JStr (Provider cfg)];
          spec =
            (if Provider cfg = ''harvester'' then
               (case pc_Harvester (ProviderConfig cfg) of
                  None \<Rightarrow> Inl NilPointerDereference
                | Some hv \<Rightarrow> Inr (spec0(
                    ''credentialsRef'' \<mapsto> JMap
                       [''name'' \<mapsto> JStr (cl_Name (Cluster cfg) @ ''-harvester-credentials''),
                        ''namespace'' \<mapsto> JStr butlerNamespace,
                        ''key'' \<mapsto> JStr ''kubeconfig''],
                    ''harvester'' \<mapsto> JMap
                       [''namespace'' \<mapsto> JStr (hv_Namespace hv),
                        ''networkName'' \<mapsto> JStr (hv_NetworkName hv),
                        ''imageName'' \<mapsto> JStr (hv_ImageName hv)])))
             else if Provider cfg = ''nutanix'' then
               (case pc_Nutanix (ProviderConfig cfg) of
                  None \<Rightarrow> Inl NilPointerDereference
                | Some nx \<Rightarrow> Inr (spec0(
                    ''credentialsRef'' \<mapsto> JMap
                       [''name'' \<mapsto> JStr (cl_Name (Cluster cfg) @ ''-nutanix-credentials''),
                        ''namespace'' \<mapsto> JStr butlerNamespace],
                    ''nutanix'' \<mapsto> JMap
                       [''endpoint'' \<mapsto> JStr (nx_Endpoint nx),
                        ''port'' \<mapsto> JInt32 (nx_Port nx),
                        ''insecure'' \<mapsto> JBool (nx_Insecure nx),
                        ''clusterUUID'' \<mapsto> JStr (nx_ClusterUUID nx),
                        ''subnetUUID'' \<mapsto> JStr (nx_SubnetUUID nx),
                        ''imageUUID'' \<mapsto> JStr (nx_ImageUUID nx)])))
             else Inr spec0)
      in case spec of
           Inl p \<Rightarrow> Inl p
         | Inr sp \<Rightarrow> Inr
             [''apiVersion'' \<mapsto> JStr (butlerAPIGroup @ ''/'' @ butlerAPIVersion),
              ''kind'' \<mapsto> JStr ''ProviderConfig'',
              ''metadata'' \<mapsto> JMap
                 [''name'' \<mapsto> JStr (cl_Name (Cluster cfg) @ ''-provider''),
                  ''namespace'' \<mapsto> JStr butlerNamespace],
              ''spec'' \<mapsto> JMap sp])"

definition extraDiskEntry :: "DiskConfig \<Rightarrow> jv" where
  "extraDiskEntry disk =
     (let d = [''sizeGB'' \<mapsto> JInt32 (dk_SizeGB disk)]
      in JMap (if dk_StorageClass disk \<noteq> [] then d(''storageClass'' \<mapsto> JStr (dk_StorageClass disk))
               else d))"

text \<open>The \<open>cluster\<close> block of the ClusterBootstrap: the first part of the builder.\<close>

definition clusterSpec :: "Config \<Rightarrow> obj" where
  "clusterSpec cfg =
     (let cs = [''name'' \<mapsto> JStr (cl_Name (Cluster cfg)),
                ''topology'' \<mapsto> JStr (cl_Topology (Cluster cfg)),
                ''controlPlane'' \<mapsto> JMap
                   [''replicas'' \<mapsto> JInt32 (np_Replicas (cl_ControlPlane (Cluster cfg))),
                    ''cpu'' \<mapsto> JInt32 (np_CPU (cl_ControlPlane (Cluster cfg))),
                    ''memoryMB'' \<mapsto> JInt32 (np_MemoryMB (cl_ControlPlane (Cluster cfg))),
                    ''diskGB'' \<mapsto> JInt32 (np_DiskGB (cl_ControlPlane (Cluster cfg)))]]
      in if \<not> IsSingleNode cfg \<and> 0 <s np_Replicas (cl_Workers (Cluster cfg)) then
           (let extraDisks = map extraDiskEntry (np_ExtraDisks (cl_Workers (Cluster cfg)));
                workersSpec =
                  [''replicas'' \<mapsto> JInt32 (np_Replicas (cl_Workers (Cluster cfg))),
                   ''cpu'' \<mapsto> JInt32 (np_CPU (cl_Workers (Cluster cfg))),
                   ''memoryMB'' \<mapsto> JInt32 (np_MemoryMB (cl_Workers (Cluster cfg))),
                   ''diskGB'' \<mapsto> JInt32 (np_DiskGB (cl_Workers (Cluster cfg)))]
            in cs(''workers'' \<mapsto> JMap
                 (if length extraDisks > 0 then workersSpec(''extraDisks'' \<mapsto> JList extraDisks)
                  else workersSpec)))
         else cs)"

definition buildClusterBootstrapUnstructured :: "Config \<Rightarrow> obj" where
  "buildClusterBootstrapUnstructured cfg =
     [''apiVersion'' \<mapsto> JStr (butlerAPIGroup @ ''/'' @ butlerAPIVersion),
      ''kind'' \<mapsto> JStr ''ClusterBootstrap'',
      ''metadata'' \<mapsto> JMap
         [''name'' \<mapsto> JStr (cl_Name (Cluster cfg)),
          ''namespace'' \<mapsto> JStr butlerNamespace],
      ''spec'' \<mapsto> JMap
         [''provider'' \<mapsto> JStr (Provider cfg),
          ''providerRef'' \<mapsto> JMap
             [''name'' \<mapsto> JStr (cl_Name (Cluster cfg) @ ''-provider''),
              ''namespace'' \<mapsto> JStr butlerNamespace],
          ''cluster'' \<mapsto> JMap (clusterSpec cfg),
          ''network'' \<mapsto> JMap
             [''podCIDR'' \<mapsto> JStr (nw_PodCIDR (Network cfg)),
              ''serviceCIDR'' \<mapsto> JStr (nw_ServiceCIDR (Network cfg)),
              ''vip'' \<mapsto> JStr (nw_VIP (Network cfg))],
          ''talos'' \<mapsto> JMap
             [''version'' \<mapsto> JStr (tl_Version (Talos cfg)),
              ''schematic'' \<mapsto> JStr (tl_Schematic (Talos cfg))],
          ''addons'' \<mapsto> JMap
             [''cni'' \<mapsto> JMap [''type'' \<mapsto> JStr (ad_CNI_Type (Addons cfg))],
              ''storage'' \<mapsto> JMap [''type'' \<mapsto> JStr (ad_Storage_Type (Addons cfg))],
              ''loadBalancer'' \<mapsto> JMap
                 [''type'' \<mapsto> JStr (lb_Type (ad_LoadBalancer (Addons cfg))),
                  ''addressPool'' \<mapsto> JStr (lb_AddressPool (ad_LoadBalancer (Addons cfg)))],
              ''gitOps'' \<mapsto> JMap [''type'' \<mapsto> JStr (ad_GitOps_Type (Addons cfg))],
              ''capi'' \<mapsto> JMap
                 [''enabled'' \<mapsto> JBool (capi_Enabled (ad_CAPI (Addons cfg))),
                  ''version'' \<mapsto> JStr (capi_Version (ad_CAPI (Addons cfg)))],
              ''butlerController'' \<mapsto> JMap
                 [''enabled'' \<mapsto> JBool (bc_Enabled (ad_ButlerController (Addons cfg))),
                  ''version'' \<mapsto> JStr (bc_Version (ad_ButlerController (Addons cfg))),
                  ''image'' \<mapsto> JStr (bc_Image (ad_ButlerController (Addons cfg)))],
              ''console'' \<mapsto> JMap (buildConsoleConfig (ad_Console (Addons cfg)))]]]"

section \<open>The orchestrator's run and its dry-run mode (orchestrator.go)\<close>

text \<open>\<open>Timeout\<close> is a \<open>time.Duration\<close>, a count of nanoseconds in an \<open>int64\<close>.\<close>

record Options =
  DryRun :: bool
  SkipCleanup :: bool
  Timeout :: int64
  LocalDev :: bool
  RepoRoot :: string

record clusterCredentials =
  kubeconfig :: string
  talosconfig :: string
  controlPlaneIPs :: "string list"
  consoleURL :: string

text \<open>The two functions of \<open>sigs.k8s.io/yaml\<close> the orchestrator calls.\<close>

record yaml_lib =
  yaml_Unmarshal :: "string \<Rightarrow> err + obj"
  yaml_Marshal :: "obj \<Rightarrow> err + string"

text \<open>
  What a run meets outside the process. \<open>w_yaml\<close> is the YAML library;
  \<open>caCertificates\<close> is what \<open>findCACertificates\<close> collects from
  the environment variable and the certificate directory (it only reads). The other
  fields are the outcomes of the phases of a live run, each phase being one action on
  the outside world: \<open>None\<close> is a \<open>nil\<close> error.
\<close>

record world =
  w_yaml :: yaml_lib
  caCertificates :: "string list"
  w_createKINDCluster :: "err + string"
  w_deleteKINDCluster :: "err option"
  w_injectHostAliases :: "err option"
  w_buildAndLoadImages :: "err option"
  w_createClients :: "err option"
  w_deployCRDs :: "err option"
  w_createNamespaceAndSecrets :: "err option"
  w_deployControllers :: "err option"
  w_createProviderConfig :: "err option"
  w_createClusterBootstrap :: "err option"
  w_watchBootstrap :: "err + clusterCredentials"
  w_saveClusterCredentials :: "err option"

definition getHostAliases :: "Config \<Rightarrow> string list" where
  "getHostAliases cfg =
     (if Provider cfg = ''nutanix'' then
        (case pc_Nutanix (ProviderConfig cfg) of Some nx \<Rightarrow> nx_HostAliases nx | None \<Rightarrow> [])
      else if Provider cfg = ''proxmox'' then
        (case pc_Proxmox (ProviderConfig cfg) of Some px \<Rightarrow> px_HostAliases px | None \<Rightarrow> [])
      else [])"

text \<open>
  \<open>for i := int32(0); i < n; i++\<close>: the values \<open>i\<close> takes. The loop ends because
  \<open>i < n\<close> keeps \<open>i + 1\<close> below the largest \<open>int32\<close>, so the increment never wraps.
\<close>

function int32_upto :: "int32 \<Rightarrow> int32 \<Rightarrow> int32 list" where
  "int32_upto i n = (if i <s n then i # int32_upto (i + 1) n else [])"
  by pat_completeness auto
termination
proof (relation "measure (\<lambda>(i, n). nat (sint n - sint i))")
  show "wf (measure (\<lambda>(i :: int32, n :: int32). nat (sint n - sint i)))"
    by simp
next
  fix i n :: int32
  assume a: "i <s n"
  have "sint n < 2 ^ 31"
    using sint_lt [of n] by simp
  moreover have "- (2 ^ 31) \<le> sint i"
    using sint_ge [of i] by simp
  ultimately have "- (2 ^ 31) \<le> sint i + 1 \<and> sint i + 1 < 2 ^ 31"
    using a by (simp add: word_sless_alt)
  then have "sint (i + 1) = sint i + 1"
    by (simp add: sint_word_ariths signed_take_bit_int_eq_self)
  then show "((i + 1, n), (i, n)) \<in> measure (\<lambda>(i, n). nat (sint n - sint i))"
    using a by (simp add: word_sless_alt)
qed

declare int32_upto.simps [simp del]

text \<open>The two lines \<open>dryRun\<close> prints per machine request.\<close>

definition controlPlaneRequest :: "Config \<Rightarrow> int32 \<Rightarrow> event" where
  "controlPlaneRequest cfg i =
     Printf ''- %s-cp-%d (control-plane, %d CPU, %d MB RAM)\<newline>''
       [S (cl_Name (Cluster cfg)), D i,
        D (np_CPU (cl_ControlPlane (Cluster cfg))), D (np_MemoryMB (cl_ControlPlane (Cluster cfg)))]"

definition workerRequest :: "Config \<Rightarrow> int32 \<Rightarrow> event" where
  "workerRequest cfg i =
     Printf ''- %s-worker-%d (worker, %d CPU, %d MB RAM)\<newline>''
       [S (cl_Name (Cluster cfg)), D i,
        D (np_CPU (cl_Workers (Cluster cfg))), D (np_MemoryMB (cl_Workers (Cluster cfg)))]"

text \<open>\<open>y, _ := yaml.Marshal(o); string(y)\<close>: the empty string when marshalling fails.\<close>

definition marshalled :: "world \<Rightarrow> obj \<Rightarrow> string" where
  "marshalled w ob = (case yaml_Marshal (w_yaml w) ob of Inl e \<Rightarrow> [] | Inr y \<Rightarrow> y)"

definition dryRunTopology :: "Config \<Rightarrow> event list" where
  "dryRunTopology cfg =
     [Log LInfo ''DRY RUN - showing what would be created'' [],
      Println ''\<newline>--- Cluster Topology ---'',
      Printf ''Topology: %s\<newline>'' [S (cl_Topology (Cluster cfg))]] @
     (if IsSingleNode cfg
      then [Printf ''Mode: Single control plane node running workloads (no workers)\<newline>'' [],
            Printf ''Note: Control plane replicas forced to 1, workers ignored\<newline>'' []]
      else [Printf ''Mode: HA with separate control plane and workers\<newline>'' []])"

definition dryRunMachineRequests :: "Config \<Rightarrow> event list" where
  "dryRunMachineRequests cfg =
     [Println ''\<newline>--- MachineRequests (created by controller) ---''] @
     map (controlPlaneRequest cfg) (int32_upto 0 (np_Replicas (cl_ControlPlane (Cluster cfg)))) @
     (if \<not> IsSingleNode cfg
      then map (workerRequest cfg) (int32_upto 0 (np_Replicas (cl_Workers (Cluster cfg))))
      else [Println ''(no workers - single-node topology)''])"

definition dryRunExtras :: "world \<Rightarrow> Config \<Rightarrow> event list" where
  "dryRunExtras w cfg =
     (let caCerts = caCertificates w;
          hostAliases = getHostAliases cfg;
          con = ad_Console (Addons cfg)
      in (if length caCerts > 0
          then Println ''\<newline>--- CA Certificates (will be injected into KIND) ---''
               # map (\<lambda>cert. Printf ''- %s\<newline>'' [S cert]) caCerts
          else []) @
         (if length hostAliases > 0
          then Println ''\<newline>--- Host Aliases (will be injected into KIND /etc/hosts) ---''
               # map (\<lambda>alias. Printf ''- %s\<newline>'' [S alias]) hostAliases
          else []) @
         (if con_Enabled con
          then [Println ''\<newline>--- Butler Console ---'',
                Printf ''Version: %s\<newline>'' [S (con_Version con)]] @
               (if ing_Enabled (con_Ingress con)
                then Printf ''URL: %s://%s\<newline>''
                       [S (if ing_TLS (con_Ingress con) then ''https'' else ''http''),
                        S (ing_Host (con_Ingress con))]
                     # (if ing_ClassName (con_Ingress con) \<noteq> []
                        then [Printf ''Ingress Class: %s\<newline>'' [S (ing_ClassName (con_Ingress con))]]
                        else [])
                else [Println ''Access: via port-forward (no ingress configured)''])
          else []))"

text \<open>
  \<open>dryRun\<close>: what it returns (\<open>Inr None\<close> is \<open>return nil\<close>) and everything it did, in
  order. The three lists above are consecutive blocks of the one source function. When
  building the ProviderConfig panics, what was printed before stays printed.
\<close>

definition dryRun :: "world \<Rightarrow> Config \<Rightarrow> (panic + err option) \<times> event list" where
  "dryRun w cfg =
     (case buildProviderConfigUnstructured cfg of
        Inl p \<Rightarrow> (Inl p, dryRunTopology cfg)
      | Inr pc \<Rightarrow>
          (Inr None,
           dryRunTopology cfg @
           [Println ''\<newline>--- ProviderConfig ---'', Println (marshalled w pc),
            Println ''\<newline>--- ClusterBootstrap ---'',
            Println (marshalled w (buildClusterBootstrapUnstructured cfg))] @
           dryRunMachineRequests cfg @
           dryRunExtras w cfg))"

text \<open>
  One fatal phase of a live run: the \<open>logger.Phase\<close> line, the action, and the prefix
  its error is wrapped with.
\<close>

record step =
  st_phase :: string
  st_act :: phase_action
  st_wrap :: string
  st_result :: "err option"

fun runSteps :: "step list \<Rightarrow> err option \<times> event list" where
  "runSteps [] = (None, [])"
| "runSteps (s # ss) =
     (case st_result s of
        Some e \<Rightarrow> (Some (Wrap (st_wrap s) e), [Log LPhase (st_phase s) [], Act (st_act s)])
      | None \<Rightarrow>
          (let (r, ev) = runSteps ss
           in (r, [Log LPhase (st_phase s) [], Act (st_act s)] @ ev)))"

definition watchResult :: "world \<Rightarrow> err option" where
  "watchResult w = (case w_watchBootstrap w of Inl e \<Rightarrow> Some e | Inr creds \<Rightarrow> None)"

definition liveSteps :: "Options \<Rightarrow> world \<Rightarrow> step list" where
  "liveSteps opts w =
     (if LocalDev opts
      then [\<lparr>st_phase = ''Building and loading controller images (local dev mode)'',
             st_act = BuildAndLoadImages, st_wrap = ''building/loading images'',
             st_result = w_buildAndLoadImages w\<rparr>]
      else []) @
     [\<lparr>st_phase = ''Connecting to KIND cluster'', st_act = CreateClients,
       st_wrap = ''creating clients'', st_result = w_createClients w\<rparr>,
      \<lparr>st_phase = ''Deploying Butler CRDs'', st_act = DeployCRDs,
       st_wrap = ''deploying CRDs'', st_result = w_deployCRDs w\<rparr>,
      \<lparr>st_phase = ''Creating namespace and secrets'', st_act = CreateNamespaceAndSecrets,
       st_wrap = ''creating namespace/secrets'', st_result = w_createNamespaceAndSecrets w\<rparr>,
      \<lparr>st_phase = ''Deploying Butler controllers'', st_act = DeployControllers,
       st_wrap = ''deploying controllers'', st_result = w_deployControllers w\<rparr>,
      \<lparr>st_phase = ''Creating ProviderConfig'', st_act = CreateProviderConfig,
       st_wrap = ''creating ProviderConfig'', st_result = w_createProviderConfig w\<rparr>,
      \<lparr>st_phase = ''Creating ClusterBootstrap'', st_act = CreateClusterBootstrap,
       st_wrap = ''creating ClusterBootstrap'', st_result = w_createClusterBootstrap w\<rparr>,
      \<lparr>st_phase = ''Waiting for cluster bootstrap'', st_act = WatchBootstrap,
       st_wrap = ''watching bootstrap'', st_result = watchResult w\<rparr>,
      \<lparr>st_phase = ''Saving cluster credentials'', st_act = SaveClusterCredentials,
       st_wrap = ''saving cluster credentials'', st_result = w_saveClusterCredentials w\<rparr>]"

definition successReport :: "world \<Rightarrow> Config \<Rightarrow> event list" where
  "successReport w cfg =
     (let name = cl_Name (Cluster cfg);
          url = (case w_watchBootstrap w of Inl e \<Rightarrow> [] | Inr creds \<Rightarrow> consoleURL creds)
      in [Log LSuccess ''Bootstrap complete!'' [],
          Log LInfo [] [],
          Log LInfo ''Cluster credentials saved to:'' [],
          Log LInfo (''  Kubeconfig:   ~/.butler/'' @ name @ ''-kubeconfig'') [],
          Log LInfo (''  Talosconfig:  ~/.butler/'' @ name @ ''-talosconfig'') [],
          Log LInfo [] []] @
         (if url \<noteq> []
          then [Log LInfo ''Butler Console:'' [],
                (if prefix ''kubectl'' url then Log LInfo (''  Access via: '' @ url) []
                 else Log LInfo (''  URL: '' @ url) []),
                Log LInfo ''  Credentials: admin / admin (change after first login)'' [],
                Log LInfo [] []]
          else []) @
         [Log LInfo ''Usage:'' [],
          Log LInfo (''  export KUBECONFIG=~/.butler/'' @ name @ ''-kubeconfig'') [],
          Log LInfo (''  export TALOSCONFIG=~/.butler/'' @ name @ ''-talosconfig'') [],
          Log LInfo [] [],
          Log LInfo ''  kubectl get nodes'' [],
          Log LInfo ''  talosctl health --nodes <CONTROL_PLANE_IP>'' []])"

text \<open>The deferred clean-up, registered once the KIND cluster exists.\<close>

definition cleanup :: "Options \<Rightarrow> world \<Rightarrow> event list" where
  "cleanup opts w =
     (if \<not> SkipCleanup opts
      then [Log LPhase ''Cleaning up KIND cluster'' [], Act DeleteKINDCluster] @
           (case w_deleteKINDCluster w of
              Some e \<Rightarrow> [Log LError ''failed to delete KIND cluster'' [(''error'', VErr e)]]
            | None \<Rightarrow> [])
      else [])"

definition RunLive :: "Options \<Rightarrow> world \<Rightarrow> Config \<Rightarrow> err option \<times> event list" where
  "RunLive opts w cfg =
     (let ev0 = [Log LPhase ''Initializing bootstrap'' [],
                 Log LPhase ''Creating temporary KIND cluster'' [],
                 Act CreateKINDCluster]
      in case w_createKINDCluster w of
           Inl e \<Rightarrow> (Some (Wrap ''creating KIND cluster'' e), ev0)
         | Inr kubeconfigPath \<Rightarrow>
             (let hostAliases = getHostAliases cfg;
                  ev1 = (if length hostAliases > 0
                         then Act InjectHostAliases #
                              (case w_injectHostAliases w of
                                 Some e \<Rightarrow> [Log LWarn ''Failed to inject host aliases'' [(''error'', VErr e)]]
                               | None \<Rightarrow> [])
                         else []);
                  (r, ev2) = runSteps (liveSteps opts w)
              in case r of
                   Some e \<Rightarrow> (Some e, ev0 @ ev1 @ ev2 @ cleanup opts w)
                 | None \<Rightarrow> (None, ev0 @ ev1 @ ev2 @ successReport w cfg @ cleanup opts w)))"

text \<open>\<open>Run\<close>: the dry-run test comes first, before anything else is done.\<close>

definition Run :: "Options \<Rightarrow> world \<Rightarrow> Config \<Rightarrow> (panic + err option) \<times> event list" where
  "Run opts w cfg =
     (if DryRun opts then dryRun w cfg
      else (let (r, ev) = RunLive opts w cfg in (Inr r, ev)))"

section \<open>Manifest deployer (deployer.go)\<close>

subsection \<open>Objects and the dynamic client\<close>

record GroupVersionKind =
  gvk_Group :: string
  gvk_Version :: string
  gvk_Kind :: string

record GroupVersionResource =
  gvr_Group :: string
  gvr_Version :: string
  gvr_Resource :: string

text \<open>The accessors of \<open>unstructured.Unstructured\<close> used by the source.\<close>

definition NestedString :: "obj \<Rightarrow> string list \<Rightarrow> string" where
  "NestedString ob path = asStringOrEmpty (NestedField ob path)"

definition GetKind :: "obj \<Rightarrow> string" where
  "GetKind ob = NestedString ob [''kind'']"

definition GetName :: "obj \<Rightarrow> string" where
  "GetName ob = NestedString ob [''metadata'', ''name'']"

definition GetNamespace :: "obj \<Rightarrow> string" where
  "GetNamespace ob = NestedString ob [''metadata'', ''namespace'']"

definition GetResourceVersion :: "obj \<Rightarrow> string" where
  "GetResourceVersion ob = NestedString ob [''metadata'', ''resourceVersion'']"

text \<open>
  \<open>SetResourceVersion\<close>: the empty version removes the field; otherwise the field is
  set, the \<open>metadata\<close> map being created when there is none. A \<open>metadata\<close> that is not
  a map is left as it is.
\<close>

definition SetResourceVersion :: "obj \<Rightarrow> string \<Rightarrow> obj" where
  "SetResourceVersion ob rv =
     (case ob ''metadata'' of
        None \<Rightarrow> if rv = [] then ob
                else ob(''metadata'' \<mapsto> JMap [''resourceVersion'' \<mapsto> JStr rv])
      | Some (JMap md) \<Rightarrow>
          if rv = [] then ob(''metadata'' \<mapsto> JMap (md(''resourceVersion'' := None)))
          else ob(''metadata'' \<mapsto> JMap (md(''resourceVersion'' \<mapsto> JStr rv)))
      | Some other \<Rightarrow> ob)"

text \<open>The objects on which \<open>SetResourceVersion\<close> has an effect.\<close>

definition metadataSettable :: "obj \<Rightarrow> bool" where
  "metadataSettable ob =
     (case ob ''metadata'' of None \<Rightarrow> True | Some (JMap md) \<Rightarrow> True | Some other \<Rightarrow> False)"

text \<open>\<open>unstructured.NestedSlice\<close>: found only when the path leads to a list.\<close>

definition NestedSlice :: "obj \<Rightarrow> string list \<Rightarrow> jv list option" where
  "NestedSlice ob path = asList (NestedField ob path)"

text \<open>\<open>v, _, _ := unstructured.NestedInt64(...)\<close>: 0 unless the path leads to an \<open>int64\<close>.\<close>

definition NestedInt64 :: "obj \<Rightarrow> string list \<Rightarrow> int64" where
  "NestedInt64 ob path = (case NestedField ob path of Some (JInt64 v) \<Rightarrow> v | _ \<Rightarrow> 0)"

text \<open>
  What the deployer and the watcher call outside their own code, over a world of type
  \<open>'w\<close> that each call may change: the three verbs of the dynamic client (for a
  resource, a namespace, which is empty for the cluster-scoped client, and an object or
  a name), the state of the context (\<open>ctx.Err()\<close>, non-nil exactly when \<open>ctx.Done()\<close>
  is closed), the blocking \<open>select\<close> of the watcher between \<open>ctx.Done()\<close> and its
  ticker (\<open>Some e\<close>: the context was done, with \<open>ctx.Err() = e\<close>; \<open>None\<close>: the ticker
  fired), and three library functions on values, the last being
  \<open>base64.StdEncoding.DecodeString\<close>.
\<close>

record 'w env =
  dyn_Create :: "GroupVersionResource \<Rightarrow> string \<Rightarrow> obj \<Rightarrow> 'w \<Rightarrow> (err + obj) \<times> 'w"
  dyn_Get :: "GroupVersionResource \<Rightarrow> string \<Rightarrow> string \<Rightarrow> 'w \<Rightarrow> (err + obj) \<times> 'w"
  dyn_Update :: "GroupVersionResource \<Rightarrow> string \<Rightarrow> obj \<Rightarrow> 'w \<Rightarrow> (err + obj) \<times> 'w"
  ctx_Err :: "'w \<Rightarrow> err option"
  select_Done_or_Tick :: "'w \<Rightarrow> err option \<times> 'w"
  obj_GroupVersionKind :: "obj \<Rightarrow> GroupVersionKind"
  strings_ToLower :: "string \<Rightarrow> string"
  base64_DecodeString :: "string \<Rightarrow> err + string"

subsection \<open>applyResource\<close>

definition kindToResource :: "(string \<times> string) list" where
  "kindToResource =
     [(''Namespace'', ''namespaces''),
      (''ServiceAccount'', ''serviceaccounts''),
      (''ClusterRole'', ''clusterroles''),
      (''ClusterRoleBinding'', ''clusterrolebindings''),
      (''Role'', ''roles''),
      (''RoleBinding'', ''rolebindings''),
      (''Deployment'', ''deployments''),
      (''Service'', ''services''),
      (''ConfigMap'', ''configmaps''),
      (''Secret'', ''secrets''),
      (''CustomResourceDefinition'', ''customresourcedefinitions'')]"

definition gvkToGVR :: "'w env \<Rightarrow> GroupVersionKind \<Rightarrow> GroupVersionResource" where
  "gvkToGVR env gvk =
     \<lparr>gvr_Group = gvk_Group gvk,
      gvr_Version = gvk_Version gvk,
      gvr_Resource = (case map_of kindToResource (gvk_Kind gvk) of
                        Some resource \<Rightarrow> resource
                      | None \<Rightarrow> strings_ToLower env (gvk_Kind gvk) @ ''s'')\<rparr>"

text \<open>
  \<open>applyResource\<close>: create; on "already exists" get the existing object, copy its
  resource version onto the new one and update. The result is the returned error
  (\<open>None\<close> for \<open>nil\<close>) and the world after the calls.
\<close>

definition applyResource :: "'w env \<Rightarrow> obj \<Rightarrow> 'w \<Rightarrow> err option \<times> 'w" where
  "applyResource env ob w =
     (let gvr = gvkToGVR env (obj_GroupVersionKind env ob);
          ns = GetNamespace ob
      in case dyn_Create env gvr ns ob w of
           (Inr created, w1) \<Rightarrow> (None, w1)
         | (Inl e, w1) \<Rightarrow>
             if IsAlreadyExists e then
               (case dyn_Get env gvr ns (GetName ob) w1 of
                  (Inl getErr, w2) \<Rightarrow> (Some (Wrap ''getting existing resource'' getErr), w2)
                | (Inr existing, w2) \<Rightarrow>
                    (case dyn_Update env gvr ns
                            (SetResourceVersion ob (GetResourceVersion existing)) w2 of
                       (Inl updateErr, w3) \<Rightarrow> (Some (Wrap ''updating resource'' updateErr), w3)
                     | (Inr updated, w3) \<Rightarrow> (None, w3)))
             else (Some (Wrap ''creating resource'' e), w1))"

subsection \<open>The two readiness loops\<close>

definition crdGVR :: GroupVersionResource where
  "crdGVR = \<lparr>gvr_Group = ''apiextensions.k8s.io'', gvr_Version = ''v1'',
             gvr_Resource = ''customresourcedefinitions''\<rparr>"

definition deployGVR :: GroupVersionResource where
  "deployGVR = \<lparr>gvr_Group = ''apps'', gvr_Version = ''v1'', gvr_Resource = ''deployments''\<rparr>"

text \<open>The scan of the conditions for \<open>Established = True\<close>.\<close>

fun isEstablished :: "jv list \<Rightarrow> bool" where
  "isEstablished [] = False"
| "isEstablished (JMap cond # cs) =
     (if cond ''type'' = Some (JStr ''Established'') \<and> cond ''status'' = Some (JStr ''True'')
      then True else isEstablished cs)"
| "isEstablished (c # cs) = isEstablished cs"

text \<open>
  The inner \<open>for\<close> of \<open>WaitForCRDs\<close> for one name. The loop has no bound of its own,
  so the model counts iterations down from a given number: \<open>None\<close> is "still looping
  after that many iterations", \<open>Some r\<close> is the loop left with \<open>r\<close> (\<open>Some e\<close> for
  \<open>return e\<close>, \<open>None\<close> for \<open>break\<close>).
\<close>

fun WaitForCRD :: "'w env \<Rightarrow> nat \<Rightarrow> string \<Rightarrow> 'w \<Rightarrow> err option option \<times> 'w" where
  "WaitForCRD env 0 name w = (None, w)"
| "WaitForCRD env (Suc n) name w =
     (case ctx_Err env w of
        Some e \<Rightarrow> (Some (Some e), w)
      | None \<Rightarrow>
          (case dyn_Get env crdGVR [] name w of
             (Inl e, w1) \<Rightarrow> WaitForCRD env n name w1
           | (Inr crd, w1) \<Rightarrow>
               (case NestedSlice crd [''status'', ''conditions''] of
                  None \<Rightarrow> WaitForCRD env n name w1
                | Some conditions \<Rightarrow>
                    if isEstablished conditions then (Some None, w1)
                    else WaitForCRD env n name w1)))"

text \<open>\<open>WaitForCRDs\<close>: the names in order, each with the given number of iterations.\<close>

fun WaitForCRDs :: "'w env \<Rightarrow> nat \<Rightarrow> string list \<Rightarrow> 'w \<Rightarrow> err option option \<times> 'w" where
  "WaitForCRDs env n [] w = (Some None, w)"
| "WaitForCRDs env n (name # names) w =
     (case WaitForCRD env n name w of
        (Some None, w1) \<Rightarrow> WaitForCRDs env n names w1
      | (r, w1) \<Rightarrow> (r, w1))"

fun WaitForDeployment :: "'w env \<Rightarrow> nat \<Rightarrow> string \<Rightarrow> string \<Rightarrow> 'w \<Rightarrow> err option option \<times> 'w" where
  "WaitForDeployment env 0 namespace name w = (None, w)"
| "WaitForDeployment env (Suc n) namespace name w =
     (case ctx_Err env w of
        Some e \<Rightarrow> (Some (Some e), w)
      | None \<Rightarrow>
          (case dyn_Get env deployGVR namespace name w of
             (Inl e, w1) \<Rightarrow> WaitForDeployment env n namespace name w1
           | (Inr deploy, w1) \<Rightarrow>
               (let replicas = NestedInt64 deploy [''spec'', ''replicas''];
                    readyReplicas = NestedInt64 deploy [''status'', ''readyReplicas'']
                in if replicas \<le>s readyReplicas \<and> 0 <s replicas then (Some None, w1)
                   else WaitForDeployment env n namespace name w1)))"

section \<open>Submitting the intent objects and watching the bootstrap (orchestrator.go)\<close>

definition clusterBootstrapGVR :: GroupVersionResource where
  "clusterBootstrapGVR = \<lparr>gvr_Group = butlerAPIGroup, gvr_Version = butlerAPIVersion,
                           gvr_Resource = ''clusterbootstraps''\<rparr>"

definition providerConfigGVR :: GroupVersionResource where
  "providerConfigGVR = \<lparr>gvr_Group = butlerAPIGroup, gvr_Version = butlerAPIVersion,
                         gvr_Resource = ''providerconfigs''\<rparr>"

text \<open>
  The two submissions: the returned error (or the panic of the builder), the world
  after the call and the log line of the success.
\<close>

definition createProviderConfig ::
  "'w env \<Rightarrow> Config \<Rightarrow> 'w \<Rightarrow> (panic + err option) \<times> 'w \<times> event list" where
  "createProviderConfig env cfg w =
     (case buildProviderConfigUnstructured cfg of
        Inl p \<Rightarrow> (Inl p, w, [])
      | Inr pc \<Rightarrow>
          (case dyn_Create env providerConfigGVR butlerNamespace pc w of
             (Inl e, w1) \<Rightarrow> (Inr (Some (Wrap ''creating ProviderConfig'' e)), w1, [])
           | (Inr created, w1) \<Rightarrow>
               (Inr None, w1, [Log LSuccess ''ProviderConfig created'' [(''name'', VStr (GetName pc))]])))"

definition createClusterBootstrap ::
  "'w env \<Rightarrow> Config \<Rightarrow> 'w \<Rightarrow> err option \<times> 'w \<times> event list" where
  "createClusterBootstrap env cfg w =
     (let cb = buildClusterBootstrapUnstructured cfg
      in case dyn_Create env clusterBootstrapGVR butlerNamespace cb w of
           (Inl e, w1) \<Rightarrow> (Some (Wrap ''creating ClusterBootstrap'' e), w1, [])
         | (Inr created, w1) \<Rightarrow>
             (None, w1, [Log LSuccess ''ClusterBootstrap created'' [(''name'', VStr (GetName cb))]]))"

text \<open>The scan of \<open>status.machines\<close>: the debug line per machine, and the addresses kept.\<close>

fun machineLogs :: "jv list \<Rightarrow> event list" where
  "machineLogs [] = []"
| "machineLogs (JMap machine # ms) =
     Log LDebug ''machine status''
       [(''name'', VAny (machine ''name'')), (''phase'', VAny (machine ''phase'')),
        (''ip'', VAny (machine ''ipAddress'')), (''ready'', VAny (machine ''ready''))]
     # machineLogs ms"
| "machineLogs (m # ms) = machineLogs ms"

fun collectControlPlaneIPs :: "jv list \<Rightarrow> string list" where
  "collectControlPlaneIPs [] = []"
| "collectControlPlaneIPs (JMap machine # ms) =
     (if asStringOrEmpty (machine ''role'') = ''control-plane''
         \<and> asStringOrEmpty (machine ''ipAddress'') \<noteq> []
      then asStringOrEmpty (machine ''ipAddress'') # collectControlPlaneIPs ms
      else collectControlPlaneIPs ms)"
| "collectControlPlaneIPs (m # ms) = collectControlPlaneIPs ms"

definition statusMachines :: "obj \<Rightarrow> jv list" where
  "statusMachines status = (case asList (status ''machines'') of Some ms \<Rightarrow> ms | None \<Rightarrow> [])"

text \<open>The \<open>Ready\<close> case of the watcher's \<open>switch\<close>.\<close>

definition onReady :: "'w env \<Rightarrow> obj \<Rightarrow> string list \<Rightarrow> err + clusterCredentials" where
  "onReady env status ips =
     (case base64_DecodeString env (asStringOrEmpty (status ''kubeconfig'')) of
        Inl e \<Rightarrow> Inl (Wrap ''decoding kubeconfig'' e)
      | Inr kubeconfigBytes \<Rightarrow>
          (case base64_DecodeString env (asStringOrEmpty (status ''talosconfig'')) of
             Inl e \<Rightarrow> Inl (Wrap ''decoding talosconfig'' e)
           | Inr talosconfigBytes \<Rightarrow>
               Inr \<lparr>kubeconfig = kubeconfigBytes,
                    talosconfig = talosconfigBytes,
                    controlPlaneIPs = ips,
                    consoleURL = asStringOrEmpty (status ''consoleURL'')\<rparr>))"

text \<open>The \<open>Failed\<close> case: \<open>fmt.Errorf("bootstrap failed: %s - %s", reason, message)\<close>.\<close>

definition onFailed :: "obj \<Rightarrow> err" where
  "onFailed status =
     Errorf (''bootstrap failed: '' @ asStringOrEmpty (status ''failureReason'')
             @ '' - '' @ asStringOrEmpty (status ''failureMessage''))"

text \<open>
  One pass through the body of the watcher's \<open>for\<close>: either the function returns, or
  the loop goes round again with the last phase seen. Both carry the world after the
  pass and what the pass logged.
\<close>

datatype 'w pass =
    Return "err + clusterCredentials" 'w "event list"
  | Continue string 'w "event list"

definition watchPass :: "'w env \<Rightarrow> Config \<Rightarrow> string \<Rightarrow> 'w \<Rightarrow> 'w pass" where
  "watchPass env cfg lastPhase w =
     (case select_Done_or_Tick env w of
        (Some e, w1) \<Rightarrow> Return (Inl e) w1 []
      | (None, w1) \<Rightarrow>
          (case dyn_Get env clusterBootstrapGVR butlerNamespace (cl_Name (Cluster cfg)) w1 of
             (Inl e, w2) \<Rightarrow>
               Continue lastPhase w2 [Log LWarn ''failed to get ClusterBootstrap'' [(''error'', VErr e)]]
           | (Inr cb, w2) \<Rightarrow>
               (case asMap (cb ''status'') of
                  None \<Rightarrow> Continue lastPhase w2 [Log LDebug ''no status yet'' []]
                | Some status \<Rightarrow>
                    (let phase = asStringOrEmpty (status ''phase'');
                         ev = (if phase \<noteq> lastPhase
                               then [Log LInfo ''phase changed'' [(''phase'', VStr phase)]]
                               else [])
                              @ machineLogs (statusMachines status);
                         ips = collectControlPlaneIPs (statusMachines status)
                     in if phase = ''Ready'' then
                          Return (onReady env status ips) w2
                            (ev @ [Log LSuccess ''Cluster is ready!'' []])
                        else if phase = ''Failed'' then
                          Return (Inl (onFailed status)) w2 ev
                        else Continue phase w2 ev))))"

definition withEvents :: "event list \<Rightarrow> 'a \<times> 'w \<times> event list \<Rightarrow> 'a \<times> 'w \<times> event list" where
  "withEvents ev r = (case r of (x, w, ev') \<Rightarrow> (x, w, ev @ ev'))"

text \<open>
  \<open>watchBootstrap\<close>, from the given last phase (the source starts with \<open>""\<close>). As for
  the readiness loops the passes are counted down: \<open>None\<close> is "still polling",
  \<open>Some r\<close> is what the function returned. The third component is what it logged.
\<close>

fun watchBootstrapFrom ::
  "'w env \<Rightarrow> nat \<Rightarrow> Config \<Rightarrow> string \<Rightarrow> 'w
     \<Rightarrow> (err + clusterCredentials) option \<times> 'w \<times> event list" where
  "watchBootstrapFrom env 0 cfg lastPhase w = (None, w, [])"
| "watchBootstrapFrom env (Suc n) cfg lastPhase w =
     (case watchPass env cfg lastPhase w of
        Return r w' ev \<Rightarrow> (Some r, w', ev)
      | Continue phase w' ev \<Rightarrow> withEvents ev (watchBootstrapFrom env n cfg phase w'))"

definition watchBootstrap ::
  "'w env \<Rightarrow> nat \<Rightarrow> Config \<Rightarrow> 'w \<Rightarrow> (err + clusterCredentials) option \<times> 'w \<times> event list" where
  "watchBootstrap env n cfg w = watchBootstrapFrom env n cfg [] w"

section \<open>Persisting the credentials (orchestrator.go)\<close>

text \<open>The strings of a list of values: \<open>if s, ok := n.(string); ok\<close>.\<close>

fun stringsOf :: "jv list \<Rightarrow> string list" where
  "stringsOf [] = []"
| "stringsOf (JStr s # ns) = s # stringsOf ns"
| "stringsOf (n # ns) = stringsOf ns"

text \<open>
  \<open>fixTalosconfigEndpoints\<close>: the bytes it returns and what it logged. The maps of the
  decoded document are shared in Go, so assigning into the context is assigning into
  the document: the model rebuilds the document around the changed context. A
  \<open>[]interface{}\<close> assertion that fails leaves the \<open>nil\<close> slice, of length 0.
\<close>

definition fixTalosconfigEndpoints ::
  "yaml_lib \<Rightarrow> string \<Rightarrow> string \<Rightarrow> string list \<Rightarrow> string \<times> event list" where
  "fixTalosconfigEndpoints y talos clusterName ips =
     (if length ips = 0 then (talos, [])
      else
        (case yaml_Unmarshal y talos of
           Inl e \<Rightarrow>
             (talos, [Log LWarn ''failed to parse talosconfig, returning as-is'' [(''error'', VErr e)]])
         | Inr config \<Rightarrow>
             (case asMap (config ''contexts'') of
                None \<Rightarrow> (talos, [])
              | Some contexts \<Rightarrow>
                  (case asMap (contexts clusterName) of
                     None \<Rightarrow> (talos, [])
                   | Some contextConfig \<Rightarrow>
                       (let endpoints = (case asList (contextConfig ''endpoints'') of
                                           Some es \<Rightarrow> es | None \<Rightarrow> []);
                            config' =
                              (if length endpoints = 0 then
                                 (let c1 = contextConfig(''endpoints'' \<mapsto> JList (map JStr ips));
                                      allNodes = (case asList (contextConfig ''nodes'') of
                                                    Some existingNodes \<Rightarrow> stringsOf existingNodes
                                                  | None \<Rightarrow> []);
                                      c2 = (if length allNodes = 0
                                            then c1(''nodes'' \<mapsto> JList (map JStr ips))
                                            else c1)
                                  in config(''contexts'' \<mapsto> JMap (contexts(clusterName \<mapsto> JMap c2))))
                               else config)
                        in case yaml_Marshal y config' of
                             Inl e \<Rightarrow>
                               (talos, [Log LWarn ''failed to marshal fixed talosconfig''
                                          [(''error'', VErr e)]])
                           | Inr fixed \<Rightarrow> (fixed, []))))))"

text \<open>
  The file system as \<open>saveClusterCredentials\<close> meets it: the outcome of each call.
  Permissions are the numbers the source writes in octal: \<open>0700 = 448\<close>, \<open>0600 = 384\<close>.
\<close>

record fs =
  fs_UserHomeDir :: "err + string"
  fs_Join :: "string \<Rightarrow> string \<Rightarrow> string"
  fs_MkdirAll :: "string \<Rightarrow> nat \<Rightarrow> err option"
  fs_WriteFile :: "string \<Rightarrow> string \<Rightarrow> nat \<Rightarrow> err option"

definition saveClusterCredentials ::
  "fs \<Rightarrow> yaml_lib \<Rightarrow> string \<Rightarrow> clusterCredentials \<Rightarrow> err option \<times> event list" where
  "saveClusterCredentials f y clusterName creds =
     (case fs_UserHomeDir f of
        Inl e \<Rightarrow> (Some (Wrap ''getting home directory'' e), [])
      | Inr home \<Rightarrow>
          (let butlerDir = fs_Join f home ''.butler'';
               ev1 = [MkdirAll butlerDir 448]
           in case fs_MkdirAll f butlerDir 448 of
                Some e \<Rightarrow> (Some (Wrap ''creating .butler directory'' e), ev1)
              | None \<Rightarrow>
                  (let kubeconfigPath = fs_Join f butlerDir (clusterName @ ''-kubeconfig'');
                       ev2 = ev1 @ [WriteFile kubeconfigPath (kubeconfig creds) 384]
                   in case fs_WriteFile f kubeconfigPath (kubeconfig creds) 384 of
                        Some e \<Rightarrow> (Some (Wrap ''writing kubeconfig'' e), ev2)
                      | None \<Rightarrow>
                          (let (talos', ev3) = fixTalosconfigEndpoints y (talosconfig creds)
                                                 clusterName (controlPlaneIPs creds);
                               talosconfigPath = fs_Join f butlerDir (clusterName @ ''-talosconfig'');
                               ev4 = ev2 @ ev3 @ [WriteFile talosconfigPath talos' 384]
                           in case fs_WriteFile f talosconfigPath talos' 384 of
                                Some e \<Rightarrow> (Some (Wrap ''writing talosconfig'' e), ev4)
                              | None \<Rightarrow> (None, ev4)))))"

section \<open>Two worlds to run the code in\<close>

text \<open>
  The functions above take their surroundings as a parameter. The two worlds below are
  concrete ones: an API server that stores objects, and a scripted server whose answers
  are fixed in advance. Both record the calls they receive.
\<close>

datatype action =
    ActCreate GroupVersionResource string obj
  | ActGet GroupVersionResource string string
  | ActUpdate GroupVersionResource string obj
  | ActWait

subsection \<open>Library functions\<close>

text \<open>\<open>strings.ToLower\<close> on ASCII letters; other bytes are kept.\<close>

definition asciiToLower :: "string \<Rightarrow> string" where
  "asciiToLower s =
     map (\<lambda>c. if 65 \<le> (of_char c :: nat) \<and> (of_char c :: nat) \<le> 90
              then char_of ((of_char c :: nat) + 32) else c) s"

text \<open>
  \<open>schema.ParseGroupVersion\<close> and \<open>Unstructured.GroupVersionKind\<close>: \<open>"v1"\<close> is a
  version of the empty group, \<open>"apps/v1"\<close> a group and a version; with more than one
  slash the kind is empty too.
\<close>

definition ParseGroupVersion :: "string \<Rightarrow> (string \<times> string) option" where
  "ParseGroupVersion gv =
     (if gv = [] \<or> gv = ''/'' then Some ([], [])
      else if count_list gv (CHR ''/'') = 0 then Some ([], gv)
      else if count_list gv (CHR ''/'') = 1
      then Some (takeWhile (\<lambda>c. c \<noteq> CHR ''/'') gv, tl (dropWhile (\<lambda>c. c \<noteq> CHR ''/'') gv))
      else None)"

definition GroupVersionKindOf :: "obj \<Rightarrow> GroupVersionKind" where
  "GroupVersionKindOf ob =
     (case ParseGroupVersion (NestedString ob [''apiVersion'']) of
        None \<Rightarrow> \<lparr>gvk_Group = [], gvk_Version = [], gvk_Kind = []\<rparr>
      | Some (g, v) \<Rightarrow> \<lparr>gvk_Group = g, gvk_Version = v, gvk_Kind = GetKind ob\<rparr>)"

text \<open>
  \<open>base64.StdEncoding.DecodeString\<close> (RFC 4648 with padding): line breaks are
  skipped, every four characters give three bytes, and only the last four may end in
  one or two \<open>=\<close>.
\<close>

definition b64_value :: "char \<Rightarrow> nat option" where
  "b64_value c =
     (let n = (of_char c :: nat)
      in if 65 \<le> n \<and> n \<le> 90 then Some (n - 65)
         else if 97 \<le> n \<and> n \<le> 122 then Some (n - 71)
         else if 48 \<le> n \<and> n \<le> 57 then Some (n + 4)
         else if c = CHR ''+'' then Some 62
         else if c = CHR ''/'' then Some 63
         else None)"

fun decodeQuanta :: "string \<Rightarrow> string option" where
  "decodeQuanta [] = Some []"
| "decodeQuanta (a # b # c # d # rest) =
     (case (b64_value a, b64_value b) of
        (Some x, Some y) \<Rightarrow>
          if c = CHR ''='' then
            (if d = CHR ''='' \<and> rest = [] then Some [char_of (x * 4 + y div 16)] else None)
          else
            (case b64_value c of
               None \<Rightarrow> None
             | Some z \<Rightarrow>
                 if d = CHR ''='' then
                   (if rest = []
                    then Some [char_of (x * 4 + y div 16), char_of ((y mod 16) * 16 + z div 4)]
                    else None)
                 else
                   (case b64_value d of
                      None \<Rightarrow> None
                    | Some u \<Rightarrow>
                        (case decodeQuanta rest of
                           None \<Rightarrow> None
                         | Some bs \<Rightarrow>
                             Some (char_of (x * 4 + y div 16)
                                   # char_of ((y mod 16) * 16 + z div 4)
                                   # char_of ((z mod 4) * 64 + u) # bs))))
      | _ \<Rightarrow> None)"
| "decodeQuanta _ = None"

definition StdEncoding_DecodeString :: "string \<Rightarrow> err + string" where
  "StdEncoding_DecodeString s =
     (case decodeQuanta (filter (\<lambda>c. c \<noteq> CHR 0x0A \<and> c \<noteq> CHR 0x0D) s) of
        None \<Rightarrow> Inl CorruptInputError
      | Some bs \<Rightarrow> Inr bs)"

subsection \<open>An API server that stores objects\<close>

text \<open>
  The server keeps one object per resource, namespace and name, and a revision counter
  from which it stamps \<open>metadata.resourceVersion\<close> (as a decimal string) on every
  write. Creating a name that exists is refused with "already exists"; an update must
  carry the resource version of the stored object, or it is refused with a conflict.
  The context of this world is never done.
\<close>

record apiserver =
  objects :: "GroupVersionResource \<times> string \<times> string \<Rightarrow> obj option"
  revision :: nat
  actions :: "action list"

fun decimal :: "nat \<Rightarrow> string" where
  "decimal n = (if n < 10 then [''0123456789'' ! n]
                else decimal (n div 10) @ [''0123456789'' ! (n mod 10)])"

declare decimal.simps [simp del]

definition store :: "GroupVersionResource \<times> string \<times> string \<Rightarrow> obj \<Rightarrow> apiserver \<Rightarrow> obj \<times> apiserver" where
  "store key ob s =
     (let stored = SetResourceVersion ob (decimal (Suc (revision s)))
      in (stored, s\<lparr>objects := (objects s)(key \<mapsto> stored), revision := Suc (revision s)\<rparr>))"

definition server_Create ::
  "GroupVersionResource \<Rightarrow> string \<Rightarrow> obj \<Rightarrow> apiserver \<Rightarrow> (err + obj) \<times> apiserver" where
  "server_Create gvr ns ob s =
     (let s1 = s\<lparr>actions := actions s @ [ActCreate gvr ns ob]\<rparr>
      in case objects s1 (gvr, ns, GetName ob) of
           Some existing \<Rightarrow> (Inl (StatusError AlreadyExists (GetName ob @ '' already exists'')), s1)
         | None \<Rightarrow> (let (stored, s2) = store (gvr, ns, GetName ob) ob s1 in (Inr stored, s2)))"

definition server_Get ::
  "GroupVersionResource \<Rightarrow> string \<Rightarrow> string \<Rightarrow> apiserver \<Rightarrow> (err + obj) \<times> apiserver" where
  "server_Get gvr ns name s =
     (let s1 = s\<lparr>actions := actions s @ [ActGet gvr ns name]\<rparr>
      in case objects s1 (gvr, ns, name) of
           Some existing \<Rightarrow> (Inr existing, s1)
         | None \<Rightarrow> (Inl (StatusError NotFound (name @ '' not found'')), s1))"

definition server_Update ::
  "GroupVersionResource \<Rightarrow> string \<Rightarrow> obj \<Rightarrow> apiserver \<Rightarrow> (err + obj) \<times> apiserver" where
  "server_Update gvr ns ob s =
     (let s1 = s\<lparr>actions := actions s @ [ActUpdate gvr ns ob]\<rparr>
      in case objects s1 (gvr, ns, GetName ob) of
           None \<Rightarrow> (Inl (StatusError NotFound (GetName ob @ '' not found'')), s1)
         | Some existing \<Rightarrow>
             if GetResourceVersion ob \<noteq> GetResourceVersion existing
             then (Inl (StatusError Conflict (GetName ob @ '' has been modified'')), s1)
             else (let (stored, s2) = store (gvr, ns, GetName ob) ob s1 in (Inr stored, s2)))"

definition server :: "apiserver env" where
  "server =
     \<lparr>dyn_Create = server_Create,
      dyn_Get = server_Get,
      dyn_Update = server_Update,
      ctx_Err = (\<lambda>s. None),
      select_Done_or_Tick = (\<lambda>s. (None, s\<lparr>actions := actions s @ [ActWait]\<rparr>)),
      obj_GroupVersionKind = GroupVersionKindOf,
      strings_ToLower = asciiToLower,
      base64_DecodeString = StdEncoding_DecodeString\<rparr>"

subsection \<open>A scripted server\<close>

text \<open>
  The script is a list of moments. A moment says whether the context is done and what
  the server answers to a read; a read ends the moment. The blocking \<open>select\<close> of the
  watcher is counted as a wait and reports the context of the moment. When the script is
  over the context has reached its deadline.
\<close>

record moment =
  m_ctx :: "err option"
  m_get :: "err + obj"

record scripted =
  moments :: "moment list"
  calls :: "action list"

definition scripted_ctx :: "scripted \<Rightarrow> err option" where
  "scripted_ctx s = (case moments s of [] \<Rightarrow> Some ContextDeadlineExceeded | m # ms \<Rightarrow> m_ctx m)"

definition scripted_Get ::
  "GroupVersionResource \<Rightarrow> string \<Rightarrow> string \<Rightarrow> scripted \<Rightarrow> (err + obj) \<times> scripted" where
  "scripted_Get gvr ns name s =
     (case moments s of
        [] \<Rightarrow> (Inl ContextDeadlineExceeded, s\<lparr>calls := calls s @ [ActGet gvr ns name]\<rparr>)
      | m # ms \<Rightarrow> (m_get m, s\<lparr>moments := ms, calls := calls s @ [ActGet gvr ns name]\<rparr>))"

definition script :: "scripted env" where
  "script =
     \<lparr>dyn_Create = (\<lambda>gvr ns ob s.
         (Inl (OtherError ''read-only''), s\<lparr>calls := calls s @ [ActCreate gvr ns ob]\<rparr>)),
      dyn_Get = scripted_Get,
      dyn_Update = (\<lambda>gvr ns ob s.
         (Inl (OtherError ''read-only''), s\<lparr>calls := calls s @ [ActUpdate gvr ns ob]\<rparr>)),
      ctx_Err = scripted_ctx,
      select_Done_or_Tick = (\<lambda>s. (scripted_ctx s, s\<lparr>calls := calls s @ [ActWait]\<rparr>)),
      obj_GroupVersionKind = GroupVersionKindOf,
      strings_ToLower = asciiToLower,
      base64_DecodeString = StdEncoding_DecodeString\<rparr>"

section \<open>Reading a run's record\<close>

text \<open>
  An event that only shows something: a printed line or a log line. The other events
  change the world.
\<close>

fun isOutput :: "event \<Rightarrow> bool" where
  "isOutput (Println t) = True"
| "isOutput (Printf f args) = True"
| "isOutput (Log l m kv) = True"
| "isOutput (Act a) = False"
| "isOutput (MkdirAll path perm) = False"
| "isOutput (WriteFile path content perm) = False"

text \<open>The lines of the dry run that announce a machine request, by their format.\<close>

fun isControlPlaneRequest :: "event \<Rightarrow> bool" where
  "isControlPlaneRequest (Printf f args) =
     (f = ''- %s-cp-%d (control-plane, %d CPU, %d MB RAM)\<newline>'')"
| "isControlPlaneRequest ev = False"

fun isWorkerRequest :: "event \<Rightarrow> bool" where
  "isWorkerRequest (Printf f args) =
     (f = ''- %s-worker-%d (worker, %d CPU, %d MB RAM)\<newline>'')"
| "isWorkerRequest ev = False"

text \<open>
  The provider block that \<open>cfg.Provider\<close> names is there (the invariant of a loaded
  configuration; the builders read through the pointer without testing it).
\<close>

definition providerBlockPresent :: "Config \<Rightarrow> bool" where
  "providerBlockPresent cfg =
     ((Provider cfg = ''harvester'' \<longrightarrow> pc_Harvester (ProviderConfig cfg) \<noteq> None) \<and>
      (Provider cfg = ''nutanix'' \<longrightarrow> pc_Nutanix (ProviderConfig cfg) \<noteq> None))"

text \<open>
  A machine of the status list that is tagged with the role \<open>control-plane\<close> and has
  a non-empty address, and the address of a machine.
\<close>

definition isControlPlaneWithAddress :: "jv \<Rightarrow> bool" where
  "isControlPlaneWithAddress m =
     (case m of
        JMap machine \<Rightarrow> machine ''role'' = Some (JStr ''control-plane'')
                         \<and> asStringOrEmpty (machine ''ipAddress'') \<noteq> []
      | _ \<Rightarrow> False)"

definition machineAddress :: "jv \<Rightarrow> string" where
  "machineAddress m = (case m of JMap machine \<Rightarrow> asStringOrEmpty (machine ''ipAddress'') | _ \<Rightarrow> [])"

section \<open>Example inputs\<close>

text \<open>
  A Harvester configuration with the given topology and replica counts, and a loader
  environment in which \<open>viper.Unmarshal\<close> yields a given configuration.
\<close>

definition exampleConfig :: "string \<Rightarrow> int32 \<Rightarrow> int32 \<Rightarrow> Config" where
  "exampleConfig topology cp workers =
     \<lparr>Provider = ''harvester'',
      Cluster = \<lparr>cl_Name = ''mgmt'', cl_Topology = topology,
                 cl_ControlPlane = \<lparr>np_Replicas = cp, np_CPU = 4, np_MemoryMB = 8192,
                                     np_DiskGB = 50, np_ExtraDisks = []\<rparr>,
                 cl_Workers = \<lparr>np_Replicas = workers, np_CPU = 8, np_MemoryMB = 16384,
                                np_DiskGB = 100,
                                np_ExtraDisks = [\<lparr>dk_SizeGB = 200, dk_StorageClass = []\<rparr>]\<rparr>\<rparr>,
      Network = \<lparr>nw_PodCIDR = [], nw_ServiceCIDR = [], nw_VIP = ''10.40.0.200''\<rparr>,
      Talos = \<lparr>tl_Version = [], tl_Schematic = []\<rparr>,
      Addons = \<lparr>ad_CNI_Type = [], ad_Storage_Type = [],
                ad_LoadBalancer = \<lparr>lb_Type = [], lb_AddressPool = ''10.40.0.201-10.40.0.250''\<rparr>,
                ad_GitOps_Type = [],
                ad_CAPI = \<lparr>capi_Enabled = False, capi_Version = []\<rparr>,
                ad_ButlerController = \<lparr>bc_Enabled = False, bc_Version = [], bc_Image = []\<rparr>,
                ad_Console = \<lparr>con_Enabled = False, con_Version = [],
                              con_Ingress = \<lparr>ing_Enabled = False, ing_Host = [], ing_ClassName = [],
                                             ing_TLS = False, ing_TLSSecretName = []\<rparr>,
                              con_Auth = \<lparr>auth_AdminPassword = [], auth_JWTSecret = []\<rparr>\<rparr>\<rparr>,
      ProviderConfig = \<lparr>pc_Harvester = Some \<lparr>hv_KubeconfigPath = ''/etc/harvester.yaml'',
                                               hv_Namespace = ''default'',
                                               hv_NetworkName = ''default/vlan40'',
                                               hv_ImageName = ''default/talos''\<rparr>,
                        pc_Nutanix = None, pc_Proxmox = None\<rparr>\<rparr>"

definition exampleLoadEnv :: "Config \<Rightarrow> load_env" where
  "exampleLoadEnv raw =
     \<lparr>viper_Unmarshal = Inr raw,
      os_UserHomeDir = Inr ''/root'',
      filepath_Join = (\<lambda>a b. a @ b),
      fmt_q = (\<lambda>t. t)\<rparr>"

text \<open>
  A world in which every phase of a live run succeeds, with one CA certificate to
  find, and the options of a dry run.
\<close>

definition exampleWorld :: world where
  "exampleWorld =
     \<lparr>w_yaml = \<lparr>yaml_Unmarshal = (\<lambda>doc. Inr Map.empty), yaml_Marshal = (\<lambda>ob. Inr ''{}'')\<rparr>,
      caCertificates = [''/root/.butler/certificates/corp.crt''],
      w_createKINDCluster = Inr ''/tmp/kind-kubeconfig'',
      w_deleteKINDCluster = None,
      w_injectHostAliases = None,
      w_buildAndLoadImages = None,
      w_createClients = None,
      w_deployCRDs = None,
      w_createNamespaceAndSecrets = None,
      w_deployControllers = None,
      w_createProviderConfig = None,
      w_createClusterBootstrap = None,
      w_watchBootstrap = Inr \<lparr>kubeconfig = ''kube'', talosconfig = ''talos'',
                              controlPlaneIPs = [''10.40.0.11''], consoleURL = []\<rparr>,
      w_saveClusterCredentials = None\<rparr>"

definition dryRunOptions :: Options where
  "dryRunOptions = \<lparr>DryRun = True, SkipCleanup = False, Timeout = 1800000000000,
                     LocalDev = False, RepoRoot = []\<rparr>"

text \<open>A server that stores nothing yet, and the manifest of a namespace.\<close>

definition emptyServer :: apiserver where
  "emptyServer = \<lparr>objects = Map.empty, revision = 0, actions = []\<rparr>"

definition exampleManifest :: obj where
  "exampleManifest =
     [''apiVersion'' \<mapsto> JStr ''v1'',
      ''kind'' \<mapsto> JStr ''Namespace'',
      ''metadata'' \<mapsto> JMap [''name'' \<mapsto> JStr ''butler-system'']]"

text \<open>The server after the two intent objects of the example were submitted once.\<close>

definition submittedServer :: apiserver where
  "submittedServer =
     fst (snd (createClusterBootstrap server (exampleConfig ''ha'' 3 2)
       (fst (snd (createProviderConfig server (exampleConfig ''ha'' 3 2) emptyServer)))))"

text \<open>
  ClusterBootstrap objects as the controllers leave them, and the scripted world in
  which the server answers with them one after the other.
\<close>

definition clusterBootstrapWith :: "obj \<Rightarrow> obj" where
  "clusterBootstrapWith status =
     [''apiVersion'' \<mapsto> JStr ''butler.butlerlabs.dev/v1alpha1'',
      ''kind'' \<mapsto> JStr ''ClusterBootstrap'',
      ''metadata'' \<mapsto> JMap [''name'' \<mapsto> JStr ''mgmt'', ''namespace'' \<mapsto> JStr ''butler-system''],
      ''status'' \<mapsto> JMap status]"

definition machineStatus :: "string \<Rightarrow> string \<Rightarrow> string \<Rightarrow> jv" where
  "machineStatus name role ip =
     JMap [''name'' \<mapsto> JStr name, ''role'' \<mapsto> JStr role, ''phase'' \<mapsto> JStr ''Running'',
           ''ipAddress'' \<mapsto> JStr ip, ''ready'' \<mapsto> JBool True]"

definition exampleMachines :: "jv list" where
  "exampleMachines =
     [machineStatus ''mgmt-cp-0'' ''control-plane'' ''10.40.0.11'',
      machineStatus ''mgmt-worker-0'' ''worker'' ''10.40.0.21'',
      machineStatus ''mgmt-cp-1'' ''control-plane'' [],
      machineStatus ''mgmt-cp-2'' ''control-plane'' ''10.40.0.13'']"

definition pendingCB :: obj where
  "pendingCB = clusterBootstrapWith [''phase'' \<mapsto> JStr ''Pending'']"

definition provisioningCB :: obj where
  "provisioningCB = clusterBootstrapWith [''phase'' \<mapsto> JStr ''Provisioning-Machines'']"

definition failedCB :: obj where
  "failedCB = clusterBootstrapWith
     [''phase'' \<mapsto> JStr ''Failed'',
      ''failureReason'' \<mapsto> JStr ''QuotaExceeded'',
      ''failureMessage'' \<mapsto> JStr ''no IP addresses available'']"

text \<open>\<open>a3ViZQ==\<close> and \<open>dGFsb3M=\<close> are the base64 of \<open>kube\<close> and \<open>talos\<close>.\<close>

definition readyCB :: obj where
  "readyCB = clusterBootstrapWith
     [''phase'' \<mapsto> JStr ''Ready'',
      ''kubeconfig'' \<mapsto> JStr ''a3ViZQ=='',
      ''talosconfig'' \<mapsto> JStr ''dGFsb3M='',
      ''machines'' \<mapsto> JList exampleMachines]"

definition readyBadTalosCB :: obj where
  "readyBadTalosCB = clusterBootstrapWith
     [''phase'' \<mapsto> JStr ''Ready'',
      ''kubeconfig'' \<mapsto> JStr ''a3ViZQ=='',
      ''talosconfig'' \<mapsto> JStr ''%%%'',
      ''machines'' \<mapsto> JList exampleMachines]"

definition scriptOf :: "obj list \<Rightarrow> scripted" where
  "scriptOf answers = \<lparr>moments = map (\<lambda>ob. \<lparr>m_ctx = None, m_get = Inr ob\<rparr>) answers, calls = []\<rparr>"

text \<open>
  Two talosconfig documents for the cluster \<open>mgmt\<close>, one with an empty endpoint list
  and one with an endpoint, and a toy YAML library that knows them by name and writes a
  document as the endpoints of that cluster, each followed by a semicolon.
\<close>

definition talosDocument :: "jv list \<Rightarrow> obj" where
  "talosDocument endpoints =
     [''context'' \<mapsto> JStr ''mgmt'',
      ''contexts'' \<mapsto> JMap [''mgmt'' \<mapsto> JMap [''endpoints'' \<mapsto> JList endpoints,
                                                ''ca'' \<mapsto> JStr ''LS0t'']]]"

definition exampleYaml :: yaml_lib where
  "exampleYaml =
     \<lparr>yaml_Unmarshal = (\<lambda>doc.
         if doc = ''talosconfig without endpoints'' then Inr (talosDocument [])
         else if doc = ''talosconfig with endpoint'' then Inr (talosDocument [JStr ''10.40.0.200''])
         else Inl (OtherError ''yaml: unknown document'')),
      yaml_Marshal = (\<lambda>ob.
         Inr (concat (map (\<lambda>e. e @ '';'')
                (stringsOf (case NestedSlice ob [''contexts'', ''mgmt'', ''endpoints''] of
                              Some es \<Rightarrow> es | None \<Rightarrow> [])))))\<rparr>"

text \<open>
  A deployment with one replica wanted and none ready, a definition whose
  \<open>Established\<close> condition is still false, and a script whose context is cancelled
  after the given answers.
\<close>

definition deploymentNotReady :: obj where
  "deploymentNotReady =
     [''kind'' \<mapsto> JStr ''Deployment'',
      ''spec'' \<mapsto> JMap [''replicas'' \<mapsto> JInt64 1],
      ''status'' \<mapsto> JMap [''readyReplicas'' \<mapsto> JInt64 0]]"

definition crdNotEstablished :: obj where
  "crdNotEstablished =
     [''kind'' \<mapsto> JStr ''CustomResourceDefinition'',
      ''status'' \<mapsto> JMap [''conditions'' \<mapsto> JList
         [JMap [''type'' \<mapsto> JStr ''Established'', ''status'' \<mapsto> JStr ''False'']]]]"

definition cancelledAfter :: "obj list \<Rightarrow> scripted" where
  "cancelledAfter answers =
     \<lparr>moments = map (\<lambda>ob. \<lparr>m_ctx = None, m_get = Inr ob\<rparr>) answers
                 @ [\<lparr>m_ctx = Some ContextCanceled, m_get = Inl ContextCanceled\<rparr>],
      calls = []\<rparr>"

section \<open>Verified properties\<close>

subsection \<open>Single-node topology\<close>

lemma clusterSpec_single_node_no_workers:
  "IsSingleNode cfg \<Longrightarrow> clusterSpec cfg ''workers'' = None"
  by (simp add: clusterSpec_def)

lemma NestedField_cluster:
  "NestedField (buildClusterBootstrapUnstructured cfg) [''spec'', ''cluster''] = Some (JMap (clusterSpec cfg))"
  by (simp add: buildClusterBootstrapUnstructured_def)

lemma NestedField_workers:
  "NestedField (buildClusterBootstrapUnstructured cfg) [''spec'', ''cluster'', ''workers'']
     = clusterSpec cfg ''workers''"
  by (simp add: buildClusterBootstrapUnstructured_def)

lemma setDefaults_topology:
  "cl_Topology (Cluster raw) = ''single-node'' \<Longrightarrow> cl_Topology (Cluster (setDefaults raw)) = ''single-node''"
  by (simp add: setDefaults_def orDefault_def)

lemma enforce_replicas:
  "cl_Topology (Cluster c) = ''single-node'' \<Longrightarrow>
   np_Replicas (cl_ControlPlane (Cluster (fst (enforceSingleNode c)))) = 1 \<and>
   cl_Topology (Cluster (fst (enforceSingleNode c))) = ''single-node''"
  by (simp add: enforceSingleNode_def)

lemma consoleDefaults_Cluster: "Cluster (consoleDefaults c) = Cluster c"
  by (simp add: consoleDefaults_def Let_def)

lemma providerDefaults_Cluster: "Cluster (providerDefaults env c) = Cluster c"
  by (simp add: providerDefaults_def Let_def split: option.splits)

lemma LoadConfig_single_node:
  assumes "viper_Unmarshal env = Inr raw" and "cl_Topology (Cluster raw) = ''single-node''"
  shows "\<exists>cfg out. LoadConfig env = (Inr cfg, out)
           \<and> np_Replicas (cl_ControlPlane (Cluster cfg)) = 1
           \<and> NestedField (buildClusterBootstrapUnstructured cfg) [''spec'', ''cluster''] \<noteq> None
           \<and> NestedField (buildClusterBootstrapUnstructured cfg) [''spec'', ''cluster'', ''workers''] = None"
proof -
  let ?c = "setDefaults raw"
  have t: "cl_Topology (Cluster ?c) = ''single-node''"
    using assms(2) by (rule setDefaults_topology)
  obtain c' out where e: "enforceSingleNode ?c = (c', out)" by (cases "enforceSingleNode ?c")
  have c': "np_Replicas (cl_ControlPlane (Cluster c')) = 1 \<and> cl_Topology (Cluster c') = ''single-node''"
    using enforce_replicas [OF t] e by simp
  let ?r = "providerDefaults env (consoleDefaults c')"
  have l: "LoadConfig env = (Inr ?r, out)"
    using assms(1) t e by (simp add: LoadConfig_def)
  have cl: "Cluster ?r = Cluster c'"
    by (simp add: providerDefaults_Cluster consoleDefaults_Cluster)
  have "IsSingleNode ?r" using c' cl by (simp add: IsSingleNode_def)
  then have "clusterSpec ?r ''workers'' = None" by (rule clusterSpec_single_node_no_workers)
  then have w: "NestedField (buildClusterBootstrapUnstructured ?r) [''spec'', ''cluster'', ''workers''] = None"
    by (simp only: NestedField_workers)
  have n: "NestedField (buildClusterBootstrapUnstructured ?r) [''spec'', ''cluster''] \<noteq> None"
    by (simp only: NestedField_cluster) simp
  have r: "np_Replicas (cl_ControlPlane (Cluster ?r)) = 1" using c' cl by simp
  from l r n w show ?thesis
    by (rule_tac x = "?r" in exI, rule_tac x = out in exI) (simp only: simp_thms)
qed

lemma ha_example_has_workers:
  "NestedField (buildClusterBootstrapUnstructured (exampleConfig ''ha'' 3 2)) [''spec'', ''cluster'', ''workers''] \<noteq> None"
  by (simp add: buildClusterBootstrapUnstructured_def clusterSpec_def exampleConfig_def IsSingleNode_def word_sless_alt)

text \<open>
  Claim C1. For every configuration whose topology is \<open>single-node\<close>, the
  ClusterBootstrap object that \<open>buildClusterBootstrapUnstructured\<close> builds has a
  \<open>cluster\<close> block without the key \<open>workers\<close> (the key is absent), and \<open>LoadConfig\<close>,
  given that configuration by \<open>viper.Unmarshal\<close>, succeeds with a configuration whose
  control-plane replica count is 1, whatever the count was, and whose ClusterBootstrap
  again has no \<open>workers\<close> key.
\<close>

theorem single_node_one_replica_no_workers:
  assumes "cl_Topology (Cluster c) = ''single-node''"
  shows "NestedField (buildClusterBootstrapUnstructured c) [''spec'', ''cluster''] = Some (JMap (clusterSpec c))
         \<and> ''workers'' \<notin> dom (clusterSpec c)
         \<and> (\<forall>env. viper_Unmarshal env = Inr c \<longrightarrow>
               (\<exists>cfg out. LoadConfig env = (Inr cfg, out)
                  \<and> np_Replicas (cl_ControlPlane (Cluster cfg)) = 1
                  \<and> NestedField (buildClusterBootstrapUnstructured cfg) [''spec'', ''cluster''] \<noteq> None
                  \<and> NestedField (buildClusterBootstrapUnstructured cfg) [''spec'', ''cluster'', ''workers''] = None))"
proof (intro conjI allI impI)
  show "NestedField (buildClusterBootstrapUnstructured c) [''spec'', ''cluster''] = Some (JMap (clusterSpec c))"
    by (rule NestedField_cluster)
next
  have "IsSingleNode c" using assms by (simp add: IsSingleNode_def)
  then have "clusterSpec c ''workers'' = None" by (rule clusterSpec_single_node_no_workers)
  then show "''workers'' \<notin> dom (clusterSpec c)" by (simp add: domIff)
next
  fix env :: load_env assume "viper_Unmarshal env = Inr c"
  then show "\<exists>cfg out. LoadConfig env = (Inr cfg, out)
                  \<and> np_Replicas (cl_ControlPlane (Cluster cfg)) = 1
                  \<and> NestedField (buildClusterBootstrapUnstructured cfg) [''spec'', ''cluster''] \<noteq> None
                  \<and> NestedField (buildClusterBootstrapUnstructured cfg) [''spec'', ''cluster'', ''workers''] = None"
    using assms by (rule LoadConfig_single_node)
qed

theorem single_node_one_replica_no_workers_witness:
  "cl_Topology (Cluster (exampleConfig ''single-node'' 3 2)) = ''single-node''
   \<and> viper_Unmarshal (exampleLoadEnv (exampleConfig ''single-node'' 3 2)) = Inr (exampleConfig ''single-node'' 3 2)
   \<and> ''workers'' \<notin> dom (clusterSpec (exampleConfig ''single-node'' 3 2))
   \<and> (\<exists>cfg out. LoadConfig (exampleLoadEnv (exampleConfig ''single-node'' 3 2)) = (Inr cfg, out)
          \<and> np_Replicas (cl_ControlPlane (Cluster cfg)) = 1
          \<and> NestedField (buildClusterBootstrapUnstructured cfg) [''spec'', ''cluster''] \<noteq> None
          \<and> NestedField (buildClusterBootstrapUnstructured cfg) [''spec'', ''cluster'', ''workers''] = None)"
proof -
  have t: "cl_Topology (Cluster (exampleConfig ''single-node'' 3 2)) = ''single-node''"
    by (simp add: exampleConfig_def)
  have u: "viper_Unmarshal (exampleLoadEnv (exampleConfig ''single-node'' 3 2)) = Inr (exampleConfig ''single-node'' 3 2)"
    by (simp add: exampleLoadEnv_def)
  from single_node_one_replica_no_workers [OF t] t u show ?thesis
    by blast
qed

subsection \<open>The dry run\<close>

lemma sint_succ_of_sless: "(i :: int32) <s n \<Longrightarrow> sint (i + 1) = sint i + 1"
proof -
  assume a: "i <s n"
  have "sint n < 2 ^ 31"
    using sint_lt [of n] by simp
  moreover have "- (2 ^ 31) \<le> sint i"
    using sint_ge [of i] by simp
  ultimately have "- (2 ^ 31) \<le> sint i + 1 \<and> sint i + 1 < 2 ^ 31"
    using a by (simp add: word_sless_alt)
  then show ?thesis
    by (simp add: sint_word_ariths signed_take_bit_int_eq_self)
qed

lemma length_int32_upto: "length (int32_upto i n) = nat (sint n - sint i)"
proof (induction i n rule: int32_upto.induct)
  case (1 i n)
  show ?case
  proof (cases "i <s n")
    case True
    then show ?thesis
      using 1 by (simp add: int32_upto.simps [of i n] sint_succ_of_sless word_sless_alt)
  next
    case False
    then show ?thesis
      by (simp add: int32_upto.simps [of i n] word_sless_alt)
  qed
qed

lemma providerBlockPresent_builds:
  "providerBlockPresent cfg \<Longrightarrow> \<exists>pc. buildProviderConfigUnstructured cfg = Inr pc"
  by (cases "pc_Harvester (ProviderConfig cfg)"; cases "pc_Nutanix (ProviderConfig cfg)")
     (simp_all add: providerBlockPresent_def buildProviderConfigUnstructured_def Let_def)

lemma isOutput_dryRunTopology: "list_all isOutput (dryRunTopology cfg)"
  by (simp add: dryRunTopology_def)

lemma isOutput_dryRunMachineRequests: "list_all isOutput (dryRunMachineRequests cfg)"
  by (auto simp: dryRunMachineRequests_def controlPlaneRequest_def workerRequest_def list_all_iff)

lemma isOutput_dryRunExtras: "list_all isOutput (dryRunExtras w cfg)"
  by (auto simp: dryRunExtras_def Let_def list_all_iff)

lemma isOutput_dryRun: "list_all isOutput (snd (dryRun w cfg))"
  using isOutput_dryRunTopology [of cfg] isOutput_dryRunMachineRequests [of cfg]
    isOutput_dryRunExtras [of w cfg]
  by (simp add: dryRun_def split: sum.splits)

lemma cp_filter_topology: "filter isControlPlaneRequest (dryRunTopology cfg) = []"
  by (simp add: dryRunTopology_def)

lemma cp_filter_extras: "filter isControlPlaneRequest (dryRunExtras w cfg) = []"
  by (simp add: dryRunExtras_def Let_def filter_map comp_def)

lemma cp_filter_requests:
  "filter isControlPlaneRequest (dryRunMachineRequests cfg)
     = map (controlPlaneRequest cfg) (int32_upto 0 (np_Replicas (cl_ControlPlane (Cluster cfg))))"
  by (simp add: dryRunMachineRequests_def filter_map comp_def controlPlaneRequest_def workerRequest_def)

lemma wk_filter_topology: "filter isWorkerRequest (dryRunTopology cfg) = []"
  by (simp add: dryRunTopology_def)

lemma wk_filter_extras: "filter isWorkerRequest (dryRunExtras w cfg) = []"
  by (simp add: dryRunExtras_def Let_def filter_map comp_def)

lemma wk_filter_requests:
  "filter isWorkerRequest (dryRunMachineRequests cfg)
     = (if IsSingleNode cfg then []
        else map (workerRequest cfg) (int32_upto 0 (np_Replicas (cl_Workers (Cluster cfg)))))"
  by (simp add: dryRunMachineRequests_def filter_map comp_def controlPlaneRequest_def workerRequest_def)

lemma dryRun_built:
  assumes "buildProviderConfigUnstructured cfg = Inr pc"
  shows "fst (dryRun w cfg) = Inr None"
    and "filter isControlPlaneRequest (snd (dryRun w cfg))
           = map (controlPlaneRequest cfg) (int32_upto 0 (np_Replicas (cl_ControlPlane (Cluster cfg))))"
    and "filter isWorkerRequest (snd (dryRun w cfg))
           = (if IsSingleNode cfg then []
              else map (workerRequest cfg) (int32_upto 0 (np_Replicas (cl_Workers (Cluster cfg)))))"
  using assms
  by (simp_all add: dryRun_def cp_filter_topology cp_filter_extras cp_filter_requests
        wk_filter_topology wk_filter_extras wk_filter_requests)

text \<open>
  Claim C9. In dry-run mode \<open>Run\<close> does nothing but print and log: its record holds
  no phase action (no KIND cluster, no manifest deployment, no submission of an intent
  object) and no file-system write. When the provider block named by \<open>cfg.Provider\<close>
  is present, \<open>Run\<close> returns \<open>nil\<close>, the control-plane machine requests it lists are
  exactly those numbered from 0 below \<open>cluster.controlPlane.replicas\<close>, and the worker
  machine requests are exactly those numbered from 0 below \<open>cluster.workers.replicas\<close>
  when the topology is not single-node, and none when it is. (A replica count below 0
  lists nothing.)
\<close>

theorem dry_run_touches_nothing_and_lists_requests:
  assumes "DryRun opts"
  shows "list_all isOutput (snd (Run opts w cfg))
         \<and> (providerBlockPresent cfg \<longrightarrow>
              fst (Run opts w cfg) = Inr None
              \<and> filter isControlPlaneRequest (snd (Run opts w cfg))
                  = map (controlPlaneRequest cfg) (int32_upto 0 (np_Replicas (cl_ControlPlane (Cluster cfg))))
              \<and> length (filter isControlPlaneRequest (snd (Run opts w cfg)))
                  = nat (sint (np_Replicas (cl_ControlPlane (Cluster cfg))))
              \<and> filter isWorkerRequest (snd (Run opts w cfg))
                  = (if IsSingleNode cfg then []
                     else map (workerRequest cfg) (int32_upto 0 (np_Replicas (cl_Workers (Cluster cfg)))))
              \<and> length (filter isWorkerRequest (snd (Run opts w cfg)))
                  = (if IsSingleNode cfg then 0 else nat (sint (np_Replicas (cl_Workers (Cluster cfg))))))"
proof -
  have r: "Run opts w cfg = dryRun w cfg"
    using assms by (simp add: Run_def)
  have a: "list_all isOutput (snd (Run opts w cfg))"
    unfolding r by (rule isOutput_dryRun)
  have b: "fst (Run opts w cfg) = Inr None
              \<and> filter isControlPlaneRequest (snd (Run opts w cfg))
                  = map (controlPlaneRequest cfg) (int32_upto 0 (np_Replicas (cl_ControlPlane (Cluster cfg))))
              \<and> length (filter isControlPlaneRequest (snd (Run opts w cfg)))
                  = nat (sint (np_Replicas (cl_ControlPlane (Cluster cfg))))
              \<and> filter isWorkerRequest (snd (Run opts w cfg))
                  = (if IsSingleNode cfg then []
                     else map (workerRequest cfg) (int32_upto 0 (np_Replicas (cl_Workers (Cluster cfg)))))
              \<and> length (filter isWorkerRequest (snd (Run opts w cfg)))
                  = (if IsSingleNode cfg then 0 else nat (sint (np_Replicas (cl_Workers (Cluster cfg)))))"
    if p: "providerBlockPresent cfg"
  proof -
    from providerBlockPresent_builds [OF p] obtain pc
      where pc: "buildProviderConfigUnstructured cfg = Inr pc" ..
    show ?thesis
      unfolding r by (simp add: dryRun_built [OF pc] length_int32_upto)
  qed
  from a b show ?thesis by blast
qed

lemma live_run_creates_cluster:
  "\<not> DryRun opts \<Longrightarrow> Act CreateKINDCluster \<in> set (snd (Run opts w cfg))"
proof -
  assume d: "\<not> DryRun opts"
  obtain r ev where s: "runSteps (liveSteps opts w) = (r, ev)"
    by (cases "runSteps (liveSteps opts w)")
  show ?thesis
    using d s by (cases "w_createKINDCluster w"; cases r) (simp_all add: Run_def RunLive_def Let_def)
qed


lemma int32_upto_0_3: "int32_upto 0 3 = [0, 1, 2]"
  by (simp add: int32_upto.simps word_sless_alt)

lemma int32_upto_0_2: "int32_upto 0 2 = [0, 1]"
  by (simp add: int32_upto.simps word_sless_alt)

theorem dry_run_touches_nothing_and_lists_requests_witness:
  "DryRun dryRunOptions \<and> providerBlockPresent (exampleConfig ''ha'' 3 2)
   \<and> list_all isOutput (snd (Run dryRunOptions exampleWorld (exampleConfig ''ha'' 3 2)))
   \<and> fst (Run dryRunOptions exampleWorld (exampleConfig ''ha'' 3 2)) = Inr None
   \<and> filter isControlPlaneRequest (snd (Run dryRunOptions exampleWorld (exampleConfig ''ha'' 3 2)))
        = [controlPlaneRequest (exampleConfig ''ha'' 3 2) 0,
           controlPlaneRequest (exampleConfig ''ha'' 3 2) 1,
           controlPlaneRequest (exampleConfig ''ha'' 3 2) 2]
   \<and> filter isWorkerRequest (snd (Run dryRunOptions exampleWorld (exampleConfig ''ha'' 3 2)))
        = [workerRequest (exampleConfig ''ha'' 3 2) 0, workerRequest (exampleConfig ''ha'' 3 2) 1]"
proof -
  have d: "DryRun dryRunOptions"
    by (simp add: dryRunOptions_def)
  have p: "providerBlockPresent (exampleConfig ''ha'' 3 2)"
    by (simp add: providerBlockPresent_def exampleConfig_def)
  have cp: "np_Replicas (cl_ControlPlane (Cluster (exampleConfig ''ha'' 3 2))) = 3"
    by (simp add: exampleConfig_def)
  have wk: "np_Replicas (cl_Workers (Cluster (exampleConfig ''ha'' 3 2))) = 2"
    by (simp add: exampleConfig_def)
  have s: "\<not> IsSingleNode (exampleConfig ''ha'' 3 2)"
    by (simp add: IsSingleNode_def exampleConfig_def)
  from dry_run_touches_nothing_and_lists_requests [OF d, of exampleWorld "exampleConfig ''ha'' 3 2"] p
  show ?thesis
    using d by (simp add: cp wk s int32_upto_0_3 int32_upto_0_2)
qed

lemma dry_run_single_node_example:
  "filter isControlPlaneRequest (snd (Run dryRunOptions exampleWorld (exampleConfig ''single-node'' 1 2)))
     = [controlPlaneRequest (exampleConfig ''single-node'' 1 2) 0]
   \<and> filter isWorkerRequest (snd (Run dryRunOptions exampleWorld (exampleConfig ''single-node'' 1 2))) = []"
proof -
  have d: "DryRun dryRunOptions"
    by (simp add: dryRunOptions_def)
  have p: "providerBlockPresent (exampleConfig ''single-node'' 1 2)"
    by (simp add: providerBlockPresent_def exampleConfig_def)
  have cp: "np_Replicas (cl_ControlPlane (Cluster (exampleConfig ''single-node'' 1 2))) = 1"
    by (simp add: exampleConfig_def)
  have s: "IsSingleNode (exampleConfig ''single-node'' 1 2)"
    by (simp add: IsSingleNode_def exampleConfig_def)
  have u: "int32_upto 0 1 = [0]"
    by (simp add: int32_upto.simps word_sless_alt)
  obtain pc where pc: "buildProviderConfigUnstructured (exampleConfig ''single-node'' 1 2) = Inr pc"
    using providerBlockPresent_builds [OF p] ..
  show ?thesis
    using d by (simp add: Run_def dryRun_built [OF pc] cp s u)
qed

subsection \<open>Create-or-update of a manifest\<close>

lemma server_fields [simp]:
  "dyn_Create server = server_Create"
  "dyn_Get server = server_Get"
  "dyn_Update server = server_Update"
  "obj_GroupVersionKind server = GroupVersionKindOf"
  by (simp_all add: server_def)

lemma NestedField_metadata:
  "NestedField ob [''metadata'', k] = (case ob ''metadata'' of Some (JMap md) \<Rightarrow> md k | _ \<Rightarrow> None)"
  by (simp split: option.splits jv.splits)

lemma GetName_SetResourceVersion [simp]: "GetName (SetResourceVersion ob rv) = GetName ob"
  by (simp add: GetName_def NestedString_def SetResourceVersion_def split: option.splits jv.splits)

lemma GetResourceVersion_settable:
  "metadataSettable ob \<Longrightarrow> GetResourceVersion (SetResourceVersion ob rv) = rv"
  by (cases "ob ''metadata''")
     (simp_all add: metadataSettable_def GetResourceVersion_def NestedString_def
        SetResourceVersion_def split: jv.splits)

lemma SetResourceVersion_settable:
  "metadataSettable ob \<Longrightarrow> metadataSettable (SetResourceVersion ob a)"
  by (cases "ob ''metadata''")
     (simp_all add: metadataSettable_def SetResourceVersion_def split: jv.splits)

lemma SetResourceVersion_not_settable:
  "\<not> metadataSettable ob \<Longrightarrow> SetResourceVersion ob rv = ob"
  by (cases "ob ''metadata''")
     (simp_all add: metadataSettable_def SetResourceVersion_def split: jv.splits)

text \<open>Whatever version the new object is given, it matches what the server stored of it.\<close>

lemma carried_version_matches:
  "GetResourceVersion (SetResourceVersion ob (GetResourceVersion (SetResourceVersion (SetResourceVersion ob a) b)))
     = GetResourceVersion (SetResourceVersion (SetResourceVersion ob a) b)"
proof (cases "metadataSettable ob")
  case True
  then show ?thesis
    by (simp add: GetResourceVersion_settable SetResourceVersion_settable)
next
  case False
  then show ?thesis
    by (simp add: SetResourceVersion_not_settable)
qed

lemma stored_version_matches:
  "GetResourceVersion (SetResourceVersion ob (GetResourceVersion (SetResourceVersion ob b)))
     = GetResourceVersion (SetResourceVersion ob b)"
proof (cases "metadataSettable ob")
  case True
  then show ?thesis
    by (simp add: GetResourceVersion_settable)
next
  case False
  then show ?thesis
    by (simp add: SetResourceVersion_not_settable)
qed

text \<open>The three calls of the server, on a name that exists and on one that does not.\<close>

lemma server_Create_new:
  "objects s (gvr, ns, GetName ob) = None \<Longrightarrow>
   server_Create gvr ns ob s =
     (Inr (SetResourceVersion ob (decimal (Suc (revision s)))),
      s\<lparr>actions := actions s @ [ActCreate gvr ns ob],
        objects := (objects s)((gvr, ns, GetName ob) \<mapsto> SetResourceVersion ob (decimal (Suc (revision s)))),
        revision := Suc (revision s)\<rparr>)"
  by (simp add: server_Create_def store_def Let_def)

lemma server_Create_exists:
  "objects s (gvr, ns, GetName ob) = Some existing \<Longrightarrow>
   server_Create gvr ns ob s =
     (Inl (StatusError AlreadyExists (GetName ob @ '' already exists'')),
      s\<lparr>actions := actions s @ [ActCreate gvr ns ob]\<rparr>)"
  by (simp add: server_Create_def Let_def)

lemma server_Get_exists:
  "objects s (gvr, ns, name) = Some existing \<Longrightarrow>
   server_Get gvr ns name s = (Inr existing, s\<lparr>actions := actions s @ [ActGet gvr ns name]\<rparr>)"
  by (simp add: server_Get_def Let_def)

lemma server_Update_match:
  "objects s (gvr, ns, GetName ob) = Some existing \<Longrightarrow>
   GetResourceVersion ob = GetResourceVersion existing \<Longrightarrow>
   server_Update gvr ns ob s =
     (Inr (SetResourceVersion ob (decimal (Suc (revision s)))),
      s\<lparr>actions := actions s @ [ActUpdate gvr ns ob],
        objects := (objects s)((gvr, ns, GetName ob) \<mapsto> SetResourceVersion ob (decimal (Suc (revision s)))),
        revision := Suc (revision s)\<rparr>)"
  by (simp add: server_Update_def store_def Let_def)

lemma server_Update_conflict:
  "objects s (gvr, ns, GetName ob) = Some existing \<Longrightarrow>
   GetResourceVersion ob \<noteq> GetResourceVersion existing \<Longrightarrow>
   server_Update gvr ns ob s =
     (Inl (StatusError Conflict (GetName ob @ '' has been modified'')),
      s\<lparr>actions := actions s @ [ActUpdate gvr ns ob]\<rparr>)"
  by (simp add: server_Update_def Let_def)

text \<open>\<open>applyResource\<close> on the storing server, by whether the name exists.\<close>

lemma applyResource_new:
  assumes "objects s (gvkToGVR server (GroupVersionKindOf ob), GetNamespace ob, GetName ob) = None"
  shows "applyResource server ob s =
     (None,
      s\<lparr>actions := actions s @ [ActCreate (gvkToGVR server (GroupVersionKindOf ob)) (GetNamespace ob) ob],
        objects := (objects s)((gvkToGVR server (GroupVersionKindOf ob), GetNamespace ob, GetName ob)
                     \<mapsto> SetResourceVersion ob (decimal (Suc (revision s)))),
        revision := Suc (revision s)\<rparr>)"
  by (simp add: applyResource_def Let_def server_Create_new [OF assms])

lemma applyResource_exists:
  assumes "objects s (gvkToGVR server (GroupVersionKindOf ob), GetNamespace ob, GetName ob) = Some existing"
  shows "applyResource server ob s =
     (if GetResourceVersion (SetResourceVersion ob (GetResourceVersion existing)) = GetResourceVersion existing
      then (None,
        s\<lparr>actions := actions s @
             [ActCreate (gvkToGVR server (GroupVersionKindOf ob)) (GetNamespace ob) ob,
              ActGet (gvkToGVR server (GroupVersionKindOf ob)) (GetNamespace ob) (GetName ob),
              ActUpdate (gvkToGVR server (GroupVersionKindOf ob)) (GetNamespace ob)
                (SetResourceVersion ob (GetResourceVersion existing))],
          objects := (objects s)((gvkToGVR server (GroupVersionKindOf ob), GetNamespace ob, GetName ob)
                       \<mapsto> SetResourceVersion (SetResourceVersion ob (GetResourceVersion existing))
                            (decimal (Suc (revision s)))),
          revision := Suc (revision s)\<rparr>)
      else (Some (Wrap ''updating resource'' (StatusError Conflict (GetName ob @ '' has been modified''))),
        s\<lparr>actions := actions s @
             [ActCreate (gvkToGVR server (GroupVersionKindOf ob)) (GetNamespace ob) ob,
              ActGet (gvkToGVR server (GroupVersionKindOf ob)) (GetNamespace ob) (GetName ob),
              ActUpdate (gvkToGVR server (GroupVersionKindOf ob)) (GetNamespace ob)
                (SetResourceVersion ob (GetResourceVersion existing))]\<rparr>))"
proof -
  let ?gvr = "gvkToGVR server (GroupVersionKindOf ob)"
  let ?ns = "GetNamespace ob"
  let ?a1 = "ActCreate ?gvr ?ns ob"
  let ?a2 = "ActGet ?gvr ?ns (GetName ob)"
  let ?ob' = "SetResourceVersion ob (GetResourceVersion existing)"
  let ?a3 = "ActUpdate ?gvr ?ns ?ob'"
  let ?s1 = "s\<lparr>actions := actions s @ [?a1]\<rparr>"
  let ?s2 = "s\<lparr>actions := actions s @ [?a1, ?a2]\<rparr>"
  have c: "server_Create ?gvr ?ns ob s = (Inl (StatusError AlreadyExists (GetName ob @ '' already exists'')), ?s1)"
    by (rule server_Create_exists [OF assms])
  have e1: "objects ?s1 (?gvr, ?ns, GetName ob) = Some existing"
    using assms by simp
  have g: "server_Get ?gvr ?ns (GetName ob) ?s1 = (Inr existing, ?s2)"
    by (simp add: server_Get_exists [OF e1])
  have e2: "objects ?s2 (?gvr, ?ns, GetName ?ob') = Some existing"
    using assms by simp
  have a: "applyResource server ob s =
             (case server_Update ?gvr ?ns ?ob' ?s2 of
                (Inl updateErr, w3) \<Rightarrow> (Some (Wrap ''updating resource'' updateErr), w3)
              | (Inr updated, w3) \<Rightarrow> (None, w3))"
    by (simp only: applyResource_def Let_def server_fields c g prod.case sum.case
          IsAlreadyExists.simps if_True)
  show ?thesis
  proof (cases "GetResourceVersion ?ob' = GetResourceVersion existing")
    case True
    have u: "server_Update ?gvr ?ns ?ob' ?s2 =
        (Inr (SetResourceVersion ?ob' (decimal (Suc (revision s)))),
         s\<lparr>actions := actions s @ [?a1, ?a2, ?a3],
           objects := (objects s)((?gvr, ?ns, GetName ob) \<mapsto> SetResourceVersion ?ob' (decimal (Suc (revision s)))),
           revision := Suc (revision s)\<rparr>)"
      by (simp add: server_Update_match [OF e2 True])
    show ?thesis
      by (simp only: a u prod.case sum.case True simp_thms if_True)
  next
    case False
    have u: "server_Update ?gvr ?ns ?ob' ?s2 =
        (Inl (StatusError Conflict (GetName ob @ '' has been modified'')),
         s\<lparr>actions := actions s @ [?a1, ?a2, ?a3]\<rparr>)"
      by (simp add: server_Update_conflict [OF e2 False])
    show ?thesis
      by (simp only: a u prod.case sum.case False simp_thms if_False)
  qed
qed


lemma applyResource_settable_succeeds:
  assumes "metadataSettable ob"
  shows "fst (applyResource server ob s) = None"
proof (cases "objects s (gvkToGVR server (GroupVersionKindOf ob), GetNamespace ob, GetName ob)")
  case None
  then show ?thesis
    by (simp add: applyResource_new)
next
  case (Some existing)
  then show ?thesis
    by (simp add: applyResource_exists GetResourceVersion_settable [OF assms])
qed

text \<open>
  Claim C3. On the server that stores objects, once \<open>applyResource\<close> has applied an
  object without error, applying the same object again is idempotent: the second
  application attempts the creation, which is refused as already existing, gets the
  existing object, and updates with the new object carrying the existing object's
  resource version; it returns no error, the server holds the same names as before (no
  duplicate), and the object under that name is replaced in place.
\<close>

theorem apply_twice_updates_in_place:
  assumes "applyResource server ob s = (None, s1)"
  shows "\<exists>existing s2.
           objects s1 (gvkToGVR server (GroupVersionKindOf ob), GetNamespace ob, GetName ob) = Some existing
         \<and> applyResource server ob s1 = (None, s2)
         \<and> dom (objects s2) = dom (objects s1)
         \<and> actions s2 = actions s1 @
              [ActCreate (gvkToGVR server (GroupVersionKindOf ob)) (GetNamespace ob) ob,
               ActGet (gvkToGVR server (GroupVersionKindOf ob)) (GetNamespace ob) (GetName ob),
               ActUpdate (gvkToGVR server (GroupVersionKindOf ob)) (GetNamespace ob)
                 (SetResourceVersion ob (GetResourceVersion existing))]
         \<and> objects s2 = (objects s1)
              ((gvkToGVR server (GroupVersionKindOf ob), GetNamespace ob, GetName ob) \<mapsto>
                 SetResourceVersion (SetResourceVersion ob (GetResourceVersion existing))
                   (decimal (Suc (revision s1))))"
proof -
  let ?key = "(gvkToGVR server (GroupVersionKindOf ob), GetNamespace ob, GetName ob)"
  have stored: "\<exists>a b. objects s1 ?key = Some (SetResourceVersion (SetResourceVersion ob a) b)
                  \<or> objects s1 ?key = Some (SetResourceVersion ob b)"
  proof (cases "objects s ?key")
    case None
    have "s1 = snd (applyResource server ob s)"
      using assms by simp
    then have "objects s1 ?key = Some (SetResourceVersion ob (decimal (Suc (revision s))))"
      by (simp add: applyResource_new [OF None])
    then show ?thesis
      by blast
  next
    case (Some e0)
    have r: "fst (applyResource server ob s) = None" and s1: "s1 = snd (applyResource server ob s)"
      using assms by simp_all
    have c: "GetResourceVersion (SetResourceVersion ob (GetResourceVersion e0)) = GetResourceVersion e0"
      using r by (simp add: applyResource_exists [OF Some] split: if_splits)
    have "objects s1 ?key = Some (SetResourceVersion (SetResourceVersion ob (GetResourceVersion e0))
                                    (decimal (Suc (revision s))))"
      unfolding s1 by (simp add: applyResource_exists [OF Some] c)
    then show ?thesis
      by blast
  qed
  then obtain existing where ex: "objects s1 ?key = Some existing"
    and m: "GetResourceVersion (SetResourceVersion ob (GetResourceVersion existing)) = GetResourceVersion existing"
    using carried_version_matches stored_version_matches by metis
  let ?s2 = "s1\<lparr>actions := actions s1 @
             [ActCreate (gvkToGVR server (GroupVersionKindOf ob)) (GetNamespace ob) ob,
              ActGet (gvkToGVR server (GroupVersionKindOf ob)) (GetNamespace ob) (GetName ob),
              ActUpdate (gvkToGVR server (GroupVersionKindOf ob)) (GetNamespace ob)
                (SetResourceVersion ob (GetResourceVersion existing))],
          objects := (objects s1)(?key
                       \<mapsto> SetResourceVersion (SetResourceVersion ob (GetResourceVersion existing))
                            (decimal (Suc (revision s1)))),
          revision := Suc (revision s1)\<rparr>"
  have second: "applyResource server ob s1 = (None, ?s2)"
    unfolding applyResource_exists [OF ex] using m by simp
  have d: "dom (objects ?s2) = dom (objects s1)"
    using ex by auto
  show ?thesis
    apply (rule exI [of _ existing])
    apply (rule exI [of _ ?s2])
    using ex second d apply simp
    done
qed

theorem apply_twice_updates_in_place_witness:
  "fst (applyResource server exampleManifest emptyServer) = None
   \<and> (\<exists>existing s2.
         objects (snd (applyResource server exampleManifest emptyServer))
           (gvkToGVR server (GroupVersionKindOf exampleManifest), GetNamespace exampleManifest,
            GetName exampleManifest) = Some existing
       \<and> applyResource server exampleManifest (snd (applyResource server exampleManifest emptyServer)) = (None, s2)
       \<and> dom (objects s2) = dom (objects (snd (applyResource server exampleManifest emptyServer))))"
proof -
  have n: "objects emptyServer (gvkToGVR server (GroupVersionKindOf exampleManifest),
             GetNamespace exampleManifest, GetName exampleManifest) = None"
    by (simp add: emptyServer_def)
  have f: "fst (applyResource server exampleManifest emptyServer) = None"
    by (simp add: applyResource_new [OF n])
  then have a: "applyResource server exampleManifest emptyServer
                  = (None, snd (applyResource server exampleManifest emptyServer))"
    by (simp add: prod_eq_iff)
  from apply_twice_updates_in_place [OF a] f show ?thesis
    by blast
qed

subsection \<open>Create-once intent objects\<close>

lemma server_Create_actions:
  "actions (snd (server_Create gvr ns ob s)) = actions s @ [ActCreate gvr ns ob]"
  by (simp add: server_Create_def store_def Let_def split: option.splits)

lemma createClusterBootstrap_actions:
  "actions (fst (snd (createClusterBootstrap server cfg s)))
     = actions s @ [ActCreate clusterBootstrapGVR butlerNamespace (buildClusterBootstrapUnstructured cfg)]"
proof -
  obtain r s' where c: "server_Create clusterBootstrapGVR butlerNamespace
                          (buildClusterBootstrapUnstructured cfg) s = (r, s')"
    by (cases "server_Create clusterBootstrapGVR butlerNamespace (buildClusterBootstrapUnstructured cfg) s")
  have "actions s' = actions s @ [ActCreate clusterBootstrapGVR butlerNamespace (buildClusterBootstrapUnstructured cfg)]"
    using server_Create_actions [of clusterBootstrapGVR butlerNamespace "buildClusterBootstrapUnstructured cfg" s] c
    by simp
  then show ?thesis
    using c by (cases r) (simp_all add: createClusterBootstrap_def Let_def)
qed

lemma createProviderConfig_actions:
  assumes "buildProviderConfigUnstructured cfg = Inr pc"
  shows "actions (fst (snd (createProviderConfig server cfg s)))
           = actions s @ [ActCreate providerConfigGVR butlerNamespace pc]"
proof -
  obtain r s' where c: "server_Create providerConfigGVR butlerNamespace pc s = (r, s')"
    by (cases "server_Create providerConfigGVR butlerNamespace pc s")
  have "actions s' = actions s @ [ActCreate providerConfigGVR butlerNamespace pc]"
    using server_Create_actions [of providerConfigGVR butlerNamespace pc s] c by simp
  then show ?thesis
    using c assms by (cases r) (simp_all add: createProviderConfig_def)
qed

text \<open>
  Claim C8. The two intent objects are create-once. Whatever the dynamic client is,
  when the creation fails with an error \<open>e\<close>, \<open>createProviderConfig\<close> and
  \<open>createClusterBootstrap\<close> return that error wrapped and leave the world as the one
  creation call left it. On the server that stores objects each of them makes exactly
  one call, a creation, whether it succeeds or not; when an object of the same name
  exists it returns the server's "already exists" error and nothing stored changes:
  there is no get, no update and no reuse. (The ProviderConfig half is for a
  configuration whose ProviderConfig can be built.)
\<close>

theorem intent_objects_created_once:
  assumes "buildProviderConfigUnstructured cfg = Inr pc"
      and "cb = buildClusterBootstrapUnstructured cfg"
  shows "(dyn_Create env providerConfigGVR butlerNamespace pc w = (Inl e, w1) \<longrightarrow>
            createProviderConfig env cfg w = (Inr (Some (Wrap ''creating ProviderConfig'' e)), w1, []))
       \<and> (dyn_Create env clusterBootstrapGVR butlerNamespace cb w = (Inl e, w1) \<longrightarrow>
            createClusterBootstrap env cfg w = (Some (Wrap ''creating ClusterBootstrap'' e), w1, []))
       \<and> actions (fst (snd (createProviderConfig server cfg s)))
            = actions s @ [ActCreate providerConfigGVR butlerNamespace pc]
       \<and> actions (fst (snd (createClusterBootstrap server cfg s)))
            = actions s @ [ActCreate clusterBootstrapGVR butlerNamespace cb]
       \<and> (objects s (providerConfigGVR, butlerNamespace, GetName pc) \<noteq> None \<longrightarrow>
            createProviderConfig server cfg s =
              (Inr (Some (Wrap ''creating ProviderConfig''
                      (StatusError AlreadyExists (GetName pc @ '' already exists'')))),
               s\<lparr>actions := actions s @ [ActCreate providerConfigGVR butlerNamespace pc]\<rparr>, []))
       \<and> (objects s (clusterBootstrapGVR, butlerNamespace, GetName cb) \<noteq> None \<longrightarrow>
            createClusterBootstrap server cfg s =
              (Some (Wrap ''creating ClusterBootstrap''
                      (StatusError AlreadyExists (GetName cb @ '' already exists''))),
               s\<lparr>actions := actions s @ [ActCreate clusterBootstrapGVR butlerNamespace cb]\<rparr>, []))"
proof (intro conjI impI)
  assume "dyn_Create env providerConfigGVR butlerNamespace pc w = (Inl e, w1)"
  then show "createProviderConfig env cfg w = (Inr (Some (Wrap ''creating ProviderConfig'' e)), w1, [])"
    using assms(1) by (simp add: createProviderConfig_def)
next
  assume "dyn_Create env clusterBootstrapGVR butlerNamespace cb w = (Inl e, w1)"
  then show "createClusterBootstrap env cfg w = (Some (Wrap ''creating ClusterBootstrap'' e), w1, [])"
    using assms(2) by (simp add: createClusterBootstrap_def Let_def)
next
  show "actions (fst (snd (createProviderConfig server cfg s)))
          = actions s @ [ActCreate providerConfigGVR butlerNamespace pc]"
    by (rule createProviderConfig_actions [OF assms(1)])
next
  show "actions (fst (snd (createClusterBootstrap server cfg s)))
          = actions s @ [ActCreate clusterBootstrapGVR butlerNamespace cb]"
    unfolding assms(2) by (rule createClusterBootstrap_actions)
next
  assume "objects s (providerConfigGVR, butlerNamespace, GetName pc) \<noteq> None"
  then obtain existing where "objects s (providerConfigGVR, butlerNamespace, GetName pc) = Some existing"
    by blast
  then show "createProviderConfig server cfg s =
              (Inr (Some (Wrap ''creating ProviderConfig''
                      (StatusError AlreadyExists (GetName pc @ '' already exists'')))),
               s\<lparr>actions := actions s @ [ActCreate providerConfigGVR butlerNamespace pc]\<rparr>, [])"
    using assms(1) by (simp add: createProviderConfig_def server_Create_exists)
next
  assume "objects s (clusterBootstrapGVR, butlerNamespace, GetName cb) \<noteq> None"
  then obtain existing where "objects s (clusterBootstrapGVR, butlerNamespace, GetName cb) = Some existing"
    by blast
  then show "createClusterBootstrap server cfg s =
              (Some (Wrap ''creating ClusterBootstrap''
                      (StatusError AlreadyExists (GetName cb @ '' already exists''))),
               s\<lparr>actions := actions s @ [ActCreate clusterBootstrapGVR butlerNamespace cb]\<rparr>, [])"
    using assms(2) by (simp add: createClusterBootstrap_def Let_def server_Create_exists)
qed


lemma GetName_buildClusterBootstrapUnstructured:
  "GetName (buildClusterBootstrapUnstructured cfg) = cl_Name (Cluster cfg)"
  by (simp add: GetName_def NestedString_def buildClusterBootstrapUnstructured_def)

lemma GetName_buildProviderConfigUnstructured:
  "buildProviderConfigUnstructured cfg = Inr pc \<Longrightarrow> GetName pc = cl_Name (Cluster cfg) @ ''-provider''"
  by (auto simp: GetName_def NestedString_def buildProviderConfigUnstructured_def Let_def
           split: sum.splits if_splits option.splits)

lemma createProviderConfig_new:
  assumes "buildProviderConfigUnstructured cfg = Inr pc"
      and "objects s (providerConfigGVR, butlerNamespace, GetName pc) = None"
  shows "createProviderConfig server cfg s =
     (Inr None,
      s\<lparr>actions := actions s @ [ActCreate providerConfigGVR butlerNamespace pc],
        objects := (objects s)((providerConfigGVR, butlerNamespace, GetName pc)
                     \<mapsto> SetResourceVersion pc (decimal (Suc (revision s)))),
        revision := Suc (revision s)\<rparr>,
      [Log LSuccess ''ProviderConfig created'' [(''name'', VStr (GetName pc))]])"
  using assms by (simp add: createProviderConfig_def server_Create_new)

lemma createClusterBootstrap_new:
  assumes "objects s (clusterBootstrapGVR, butlerNamespace, GetName (buildClusterBootstrapUnstructured cfg)) = None"
  shows "createClusterBootstrap server cfg s =
     (None,
      s\<lparr>actions := actions s @ [ActCreate clusterBootstrapGVR butlerNamespace (buildClusterBootstrapUnstructured cfg)],
        objects := (objects s)((clusterBootstrapGVR, butlerNamespace, GetName (buildClusterBootstrapUnstructured cfg))
                     \<mapsto> SetResourceVersion (buildClusterBootstrapUnstructured cfg) (decimal (Suc (revision s)))),
        revision := Suc (revision s)\<rparr>,
      [Log LSuccess ''ClusterBootstrap created''
         [(''name'', VStr (GetName (buildClusterBootstrapUnstructured cfg)))]])"
  using assms by (simp add: createClusterBootstrap_def Let_def server_Create_new)

theorem intent_objects_created_once_witness:
  "fst (createProviderConfig server (exampleConfig ''ha'' 3 2) emptyServer) = Inr None
   \<and> fst (createClusterBootstrap server (exampleConfig ''ha'' 3 2)
            (fst (snd (createProviderConfig server (exampleConfig ''ha'' 3 2) emptyServer)))) = None
   \<and> fst (createProviderConfig server (exampleConfig ''ha'' 3 2) submittedServer)
        = Inr (Some (Wrap ''creating ProviderConfig''
                 (StatusError AlreadyExists ''mgmt-provider already exists'')))
   \<and> fst (createClusterBootstrap server (exampleConfig ''ha'' 3 2) submittedServer)
        = Some (Wrap ''creating ClusterBootstrap'' (StatusError AlreadyExists ''mgmt already exists''))
   \<and> length (actions (fst (snd (createProviderConfig server (exampleConfig ''ha'' 3 2) submittedServer))))
        = Suc (length (actions submittedServer))
   \<and> length (actions (fst (snd (createClusterBootstrap server (exampleConfig ''ha'' 3 2) submittedServer))))
        = Suc (length (actions submittedServer))"
proof -
  let ?cfg = "exampleConfig ''ha'' 3 2"
  let ?cb = "buildClusterBootstrapUnstructured ?cfg"
  have "providerBlockPresent ?cfg"
    by (simp add: providerBlockPresent_def exampleConfig_def)
  then obtain pc where pc: "buildProviderConfigUnstructured ?cfg = Inr pc"
    using providerBlockPresent_builds by blast
  have npc: "GetName pc = ''mgmt-provider''"
    by (simp add: GetName_buildProviderConfigUnstructured [OF pc] exampleConfig_def)
  have ncb: "GetName ?cb = ''mgmt''"
    by (simp add: GetName_buildClusterBootstrapUnstructured exampleConfig_def)
  have gvr: "providerConfigGVR \<noteq> clusterBootstrapGVR"
    by (simp add: providerConfigGVR_def clusterBootstrapGVR_def)
  have e0: "objects emptyServer (providerConfigGVR, butlerNamespace, GetName pc) = None"
    by (simp add: emptyServer_def)
  note c1 = createProviderConfig_new [OF pc e0]
  let ?s0 = "fst (snd (createProviderConfig server ?cfg emptyServer))"
  have e1: "objects ?s0 (clusterBootstrapGVR, butlerNamespace, GetName ?cb) = None"
    using gvr unfolding c1 by (simp add: emptyServer_def)
  note c2 = createClusterBootstrap_new [OF e1]
  have sub: "submittedServer = fst (snd (createClusterBootstrap server ?cfg ?s0))"
    by (simp add: submittedServer_def)
  have x1: "objects submittedServer (providerConfigGVR, butlerNamespace, GetName pc) \<noteq> None"
    using gvr unfolding sub c2 by (simp add: c1)
  have x2: "objects submittedServer (clusterBootstrapGVR, butlerNamespace, GetName ?cb) \<noteq> None"
    unfolding sub c2 by simp
  from intent_objects_created_once [OF pc refl, of server submittedServer _ _ submittedServer] x1 x2
  have "createProviderConfig server ?cfg submittedServer =
              (Inr (Some (Wrap ''creating ProviderConfig''
                      (StatusError AlreadyExists (GetName pc @ '' already exists'')))),
               submittedServer\<lparr>actions := actions submittedServer @ [ActCreate providerConfigGVR butlerNamespace pc]\<rparr>, [])"
   and "createClusterBootstrap server ?cfg submittedServer =
              (Some (Wrap ''creating ClusterBootstrap''
                      (StatusError AlreadyExists (GetName ?cb @ '' already exists''))),
               submittedServer\<lparr>actions := actions submittedServer @ [ActCreate clusterBootstrapGVR butlerNamespace ?cb]\<rparr>, [])"
    by blast+
  moreover have "fst (createProviderConfig server ?cfg emptyServer) = Inr None"
    by (simp add: c1)
  moreover have "fst (createClusterBootstrap server ?cfg ?s0) = None"
    unfolding c2 by simp
  ultimately show ?thesis
    by (simp add: npc ncb)
qed

subsection \<open>The bootstrap watcher: failure\<close>

lemma withEvents_Nil [simp]: "withEvents [] r = r"
  by (cases r) (simp add: withEvents_def)

lemma withEvents_append: "withEvents a (withEvents b r) = withEvents (a @ b) r"
  by (cases r) (simp add: withEvents_def)

lemma fst_withEvents [simp]: "fst (withEvents ev r) = fst r"
  by (cases r) (simp add: withEvents_def)

lemma withEvents_eq_None:
  "withEvents a r = (None, w, ev) \<Longrightarrow> \<exists>ev'. r = (None, w, ev') \<and> ev = a @ ev'"
  by (cases r) (simp add: withEvents_def)

text \<open>
  Passes that did not return are behind: the loop goes on from the world and the phase
  they left.
\<close>

lemma watchBootstrapFrom_continues:
  "watchBootstrapFrom env k cfg lp w = (None, w', ev) \<Longrightarrow>
   \<exists>lp'. \<forall>n. watchBootstrapFrom env (k + n) cfg lp w = withEvents ev (watchBootstrapFrom env n cfg lp' w')"
proof (induction k arbitrary: lp w ev)
  case 0
  then show ?case by auto
next
  case (Suc k)
  show ?case
  proof (cases "watchPass env cfg lp w")
    case (Return r w1 ev1)
    with Suc.prems show ?thesis by simp
  next
    case (Continue ph w1 ev1)
    with Suc.prems have "withEvents ev1 (watchBootstrapFrom env k cfg ph w1) = (None, w', ev)"
      by simp
    from withEvents_eq_None [OF this]
    obtain ev2 where r: "watchBootstrapFrom env k cfg ph w1 = (None, w', ev2)" and e: "ev = ev1 @ ev2"
      by auto
    from Suc.IH [OF r] obtain lp' where
      "\<forall>n. watchBootstrapFrom env (k + n) cfg ph w1 = withEvents ev2 (watchBootstrapFrom env n cfg lp' w')"
      by blast
    then have "\<forall>n. watchBootstrapFrom env (Suc k + n) cfg lp w
                 = withEvents ev (watchBootstrapFrom env n cfg lp' w')"
      using Continue e by (simp add: withEvents_append)
    then show ?thesis by blast
  qed
qed

lemma watchPass_Failed:
  assumes "select_Done_or_Tick env w = (None, w1)"
      and "dyn_Get env clusterBootstrapGVR butlerNamespace (cl_Name (Cluster cfg)) w1 = (Inr cb, w2)"
      and "cb ''status'' = Some (JMap status)"
      and "status ''phase'' = Some (JStr ''Failed'')"
  shows "\<exists>ev. watchPass env cfg lp w = Return (Inl (onFailed status)) w2 ev"
  using assms by (simp add: watchPass_def Let_def)

lemma watchPass_Ready:
  assumes "select_Done_or_Tick env w = (None, w1)"
      and "dyn_Get env clusterBootstrapGVR butlerNamespace (cl_Name (Cluster cfg)) w1 = (Inr cb, w2)"
      and "cb ''status'' = Some (JMap status)"
      and "status ''phase'' = Some (JStr ''Ready'')"
  shows "\<exists>ev. watchPass env cfg lp w
           = Return (onReady env status (collectControlPlaneIPs (statusMachines status))) w2 ev"
  using assms by (simp add: watchPass_def Let_def)

lemma watchPass_Done:
  assumes "select_Done_or_Tick env w = (Some e, w1)"
  shows "watchPass env cfg lp w = Return (Inl e) w1 []"
  using assms by (simp add: watchPass_def)

lemma watchBootstrapFrom_returns:
  assumes "watchBootstrapFrom env k cfg lp0 w0 = (None, w, ev0)"
      and "\<And>lp. \<exists>ev. watchPass env cfg lp w = Return r w2 ev"
  shows "fst (watchBootstrapFrom env (k + Suc n) cfg lp0 w0) = Some r"
proof -
  from watchBootstrapFrom_continues [OF assms(1)] obtain lp' where
    c: "watchBootstrapFrom env (k + Suc n) cfg lp0 w0
          = withEvents ev0 (watchBootstrapFrom env (Suc n) cfg lp' w)"
    by blast
  from assms(2) obtain ev where "watchPass env cfg lp' w = Return r w2 ev"
    by blast
  then show ?thesis
    unfolding c by simp
qed

text \<open>
  Claim C4. Whenever the watcher, after any number of passes that did not return,
  reads a ClusterBootstrap whose status has phase \<open>Failed\<close>, failure reason \<open>r\<close>
  and failure message \<open>m\<close> (both strings), \<open>watchBootstrap\<close> returns an error whose
  text is \<open>bootstrap failed: r - m\<close>: it contains \<open>r\<close> and \<open>m\<close> unmodified.
\<close>

theorem failed_phase_error_carries_reason_and_message:
  assumes "watchBootstrapFrom env k cfg lp0 w0 = (None, w, ev0)"
      and "select_Done_or_Tick env w = (None, w1)"
      and "dyn_Get env clusterBootstrapGVR butlerNamespace (cl_Name (Cluster cfg)) w1 = (Inr cb, w2)"
      and "cb ''status'' = Some (JMap status)"
      and "status ''phase'' = Some (JStr ''Failed'')"
      and "status ''failureReason'' = Some (JStr r)"
      and "status ''failureMessage'' = Some (JStr m)"
  shows "\<exists>e. fst (watchBootstrapFrom env (k + Suc n) cfg lp0 w0) = Some (Inl e)
             \<and> Error e = ''bootstrap failed: '' @ r @ '' - '' @ m
             \<and> sublist r (Error e) \<and> sublist m (Error e)"
proof -
  have "fst (watchBootstrapFrom env (k + Suc n) cfg lp0 w0) = Some (Inl (onFailed status))"
    using assms(1) watchPass_Failed [OF assms(2-5)] by (rule watchBootstrapFrom_returns)
  moreover have t: "Error (onFailed status) = ''bootstrap failed: '' @ r @ '' - '' @ m"
    using assms(6,7) by (simp add: onFailed_def)
  moreover have "sublist r (Error (onFailed status))"
    unfolding t sublist_def by blast
  moreover have "sublist m (Error (onFailed status))"
    unfolding t sublist_def by (metis append.assoc append_Nil2)
  ultimately show ?thesis by blast
qed


lemma script_fields [simp]:
  "dyn_Get script = scripted_Get"
  "ctx_Err script = scripted_ctx"
  "select_Done_or_Tick script = (\<lambda>s. (scripted_ctx s, s\<lparr>calls := calls s @ [ActWait]\<rparr>))"
  "base64_DecodeString script = StdEncoding_DecodeString"
  by (simp_all add: script_def)

lemma example_phases_then_failed:
  "watchBootstrapFrom script 2 (exampleConfig ''ha'' 3 2) []
     (scriptOf [pendingCB, provisioningCB, failedCB])
   = (None,
      \<lparr>moments = [\<lparr>m_ctx = None, m_get = Inr failedCB\<rparr>],
        calls = [ActWait, ActGet clusterBootstrapGVR butlerNamespace ''mgmt'',
                 ActWait, ActGet clusterBootstrapGVR butlerNamespace ''mgmt'']\<rparr>,
      [Log LInfo ''phase changed'' [(''phase'', VStr ''Pending'')],
       Log LInfo ''phase changed'' [(''phase'', VStr ''Provisioning-Machines'')]])"
  by (simp add: numeral_2_eq_2 watchPass_def scripted_Get_def scripted_ctx_def scriptOf_def
        pendingCB_def provisioningCB_def clusterBootstrapWith_def statusMachines_def
        exampleConfig_def withEvents_def Let_def)

theorem failed_phase_error_carries_reason_and_message_witness:
  "fst (watchBootstrapFrom script 2 (exampleConfig ''ha'' 3 2) []
          (scriptOf [pendingCB, provisioningCB, failedCB])) = None
   \<and> (\<exists>e. fst (watchBootstrapFrom script 3 (exampleConfig ''ha'' 3 2) []
                 (scriptOf [pendingCB, provisioningCB, failedCB])) = Some (Inl e)
          \<and> Error e = ''bootstrap failed: QuotaExceeded - no IP addresses available''
          \<and> sublist ''QuotaExceeded'' (Error e)
          \<and> sublist ''no IP addresses available'' (Error e))"
proof -
  let ?w = "\<lparr>moments = [\<lparr>m_ctx = None, m_get = Inr failedCB\<rparr>],
             calls = [ActWait, ActGet clusterBootstrapGVR butlerNamespace ''mgmt'',
                      ActWait, ActGet clusterBootstrapGVR butlerNamespace ''mgmt'']\<rparr>"
  let ?w1 = "?w\<lparr>calls := calls ?w @ [ActWait]\<rparr>"
  let ?w2 = "?w1\<lparr>moments := [], calls := calls ?w1 @ [ActGet clusterBootstrapGVR butlerNamespace ''mgmt'']\<rparr>"
  have a2: "select_Done_or_Tick script ?w = (None, ?w1)"
    by (simp add: scripted_ctx_def)
  have a3: "dyn_Get script clusterBootstrapGVR butlerNamespace
              (cl_Name (Cluster (exampleConfig ''ha'' 3 2))) ?w1 = (Inr failedCB, ?w2)"
    by (simp add: scripted_Get_def exampleConfig_def)
  have a4: "failedCB ''status'' = Some (JMap
              [''phase'' \<mapsto> JStr ''Failed'',
               ''failureReason'' \<mapsto> JStr ''QuotaExceeded'',
               ''failureMessage'' \<mapsto> JStr ''no IP addresses available''])"
    by (simp add: failedCB_def clusterBootstrapWith_def)
  have three: "(2::nat) + Suc 0 = 3"
    by simp
  have "fst (watchBootstrapFrom script 2 (exampleConfig ''ha'' 3 2) []
          (scriptOf [pendingCB, provisioningCB, failedCB])) = None"
    by (simp only: example_phases_then_failed fst_conv)
  with failed_phase_error_carries_reason_and_message
         [OF example_phases_then_failed a2 a3 a4, of "''QuotaExceeded''" "''no IP addresses available''" 0]
  show ?thesis
    unfolding three by simp
qed

subsection \<open>The bootstrap watcher: readiness\<close>

lemma role_is_control_plane:
  "(asStringOrEmpty v = ''control-plane'') = (v = Some (JStr ''control-plane''))"
  by (cases v rule: asStringOrEmpty.cases) auto

lemma collectControlPlaneIPs_filter:
  "collectControlPlaneIPs ms = map machineAddress (filter isControlPlaneWithAddress ms)"
proof (induction ms rule: collectControlPlaneIPs.induct)
  case 1
  show ?case by simp
next
  case (2 machine ms)
  then show ?case
    by (simp add: isControlPlaneWithAddress_def machineAddress_def role_is_control_plane)
qed (simp_all add: isControlPlaneWithAddress_def)

lemma decode_kube: "StdEncoding_DecodeString ''a3ViZQ=='' = Inr ''kube''"
  by code_simp

lemma decode_talos: "StdEncoding_DecodeString ''dGFsb3M='' = Inr ''talos''"
  by code_simp

lemma decode_bad: "StdEncoding_DecodeString ''%%%'' = Inl CorruptInputError"
  by code_simp

lemma decode_empty: "StdEncoding_DecodeString [] = Inr []"
  by code_simp

text \<open>
  Claim C5, as amended. Whenever the watcher, after any number of passes that did not
  return, reads a ClusterBootstrap whose status has phase \<open>Ready\<close>: if both the
  \<open>kubeconfig\<close> and the \<open>talosconfig\<close> payload decode as base64 (a payload that is
  missing is read as the empty string), \<open>watchBootstrap\<close> returns credentials holding
  the decoded bytes and exactly the addresses of the machines of the status list that are
  tagged \<open>control-plane\<close> and have a non-empty address, in the order of the list; if
  the decoding of either payload fails it returns that error, wrapped, and no
  credentials.
\<close>

theorem ready_phase_returns_decoded_credentials:
  assumes "watchBootstrapFrom env k cfg lp0 w0 = (None, w, ev0)"
      and "select_Done_or_Tick env w = (None, w1)"
      and "dyn_Get env clusterBootstrapGVR butlerNamespace (cl_Name (Cluster cfg)) w1 = (Inr cb, w2)"
      and "cb ''status'' = Some (JMap status)"
      and "status ''phase'' = Some (JStr ''Ready'')"
  shows "(\<forall>kb tb. base64_DecodeString env (asStringOrEmpty (status ''kubeconfig'')) = Inr kb
                \<and> base64_DecodeString env (asStringOrEmpty (status ''talosconfig'')) = Inr tb \<longrightarrow>
            fst (watchBootstrapFrom env (k + Suc n) cfg lp0 w0) =
              Some (Inr \<lparr>kubeconfig = kb, talosconfig = tb,
                         controlPlaneIPs = map machineAddress
                            (filter isControlPlaneWithAddress (statusMachines status)),
                         consoleURL = asStringOrEmpty (status ''consoleURL'')\<rparr>))
       \<and> (\<forall>e. base64_DecodeString env (asStringOrEmpty (status ''kubeconfig'')) = Inl e \<longrightarrow>
            fst (watchBootstrapFrom env (k + Suc n) cfg lp0 w0) = Some (Inl (Wrap ''decoding kubeconfig'' e)))
       \<and> (\<forall>kb e. base64_DecodeString env (asStringOrEmpty (status ''kubeconfig'')) = Inr kb
               \<and> base64_DecodeString env (asStringOrEmpty (status ''talosconfig'')) = Inl e \<longrightarrow>
            fst (watchBootstrapFrom env (k + Suc n) cfg lp0 w0) = Some (Inl (Wrap ''decoding talosconfig'' e)))"
proof -
  have r: "fst (watchBootstrapFrom env (k + Suc n) cfg lp0 w0)
             = Some (onReady env status (collectControlPlaneIPs (statusMachines status)))"
    using assms(1) watchPass_Ready [OF assms(2-5)] by (rule watchBootstrapFrom_returns)
  show ?thesis
    unfolding r by (simp add: onReady_def collectControlPlaneIPs_filter)
qed


lemma example_two_phases_then:
  "watchBootstrapFrom script 2 (exampleConfig ''ha'' 3 2) []
     (scriptOf [pendingCB, provisioningCB, final])
   = (None,
      \<lparr>moments = [\<lparr>m_ctx = None, m_get = Inr final\<rparr>],
        calls = [ActWait, ActGet clusterBootstrapGVR butlerNamespace ''mgmt'',
                 ActWait, ActGet clusterBootstrapGVR butlerNamespace ''mgmt'']\<rparr>,
      [Log LInfo ''phase changed'' [(''phase'', VStr ''Pending'')],
       Log LInfo ''phase changed'' [(''phase'', VStr ''Provisioning-Machines'')]])"
  by (simp add: numeral_2_eq_2 watchPass_def scripted_Get_def scripted_ctx_def scriptOf_def
        pendingCB_def provisioningCB_def clusterBootstrapWith_def statusMachines_def
        exampleConfig_def withEvents_def Let_def)

lemma example_last_pass:
  "select_Done_or_Tick script
     \<lparr>moments = [\<lparr>m_ctx = None, m_get = Inr final\<rparr>], calls = cs\<rparr>
     = (None, \<lparr>moments = [\<lparr>m_ctx = None, m_get = Inr final\<rparr>], calls = cs @ [ActWait]\<rparr>)"
  "dyn_Get script gvr ns name \<lparr>moments = [\<lparr>m_ctx = None, m_get = Inr final\<rparr>], calls = cs\<rparr>
     = (Inr final, \<lparr>moments = [], calls = cs @ [ActGet gvr ns name]\<rparr>)"
  by (simp_all add: scripted_ctx_def scripted_Get_def)

lemma example_addresses:
  "map machineAddress (filter isControlPlaneWithAddress exampleMachines) = [''10.40.0.11'', ''10.40.0.13'']"
  by (simp add: exampleMachines_def machineStatus_def isControlPlaneWithAddress_def machineAddress_def)

theorem ready_phase_returns_decoded_credentials_witness:
  "fst (watchBootstrapFrom script 2 (exampleConfig ''ha'' 3 2) []
          (scriptOf [pendingCB, provisioningCB, readyCB])) = None
   \<and> fst (watchBootstrapFrom script 3 (exampleConfig ''ha'' 3 2) []
            (scriptOf [pendingCB, provisioningCB, readyCB]))
       = Some (Inr \<lparr>kubeconfig = ''kube'', talosconfig = ''talos'',
                    controlPlaneIPs = [''10.40.0.11'', ''10.40.0.13''], consoleURL = []\<rparr>)"
proof -
  let ?status = "[''phase'' \<mapsto> JStr ''Ready'', ''kubeconfig'' \<mapsto> JStr ''a3ViZQ=='',
                  ''talosconfig'' \<mapsto> JStr ''dGFsb3M='', ''machines'' \<mapsto> JList exampleMachines]"
  have a4: "readyCB ''status'' = Some (JMap ?status)"
    by (simp add: readyCB_def clusterBootstrapWith_def)
  have a5: "?status ''phase'' = Some (JStr ''Ready'')"
    by simp
  have k: "base64_DecodeString script (asStringOrEmpty (?status ''kubeconfig'')) = Inr ''kube''"
    by (simp add: decode_kube)
  have t: "base64_DecodeString script (asStringOrEmpty (?status ''talosconfig'')) = Inr ''talos''"
    by (simp add: decode_talos)
  have m: "statusMachines ?status = exampleMachines"
    by (simp add: statusMachines_def)
  have u: "asStringOrEmpty (?status ''consoleURL'') = []"
    by simp
  have three: "(2::nat) + Suc 0 = 3"
    by simp
  have none: "fst (watchBootstrapFrom script 2 (exampleConfig ''ha'' 3 2) []
          (scriptOf [pendingCB, provisioningCB, readyCB])) = None"
    by (simp only: example_two_phases_then fst_conv)
  from ready_phase_returns_decoded_credentials
         [OF example_two_phases_then [of readyCB] example_last_pass(1) [where final = readyCB]
             example_last_pass(2) [where final = readyCB] a4 a5, of 0] k t
  have "fst (watchBootstrapFrom script (2 + Suc 0) (exampleConfig ''ha'' 3 2) []
            (scriptOf [pendingCB, provisioningCB, readyCB]))
          = Some (Inr \<lparr>kubeconfig = ''kube'', talosconfig = ''talos'',
                       controlPlaneIPs = map machineAddress
                          (filter isControlPlaneWithAddress (statusMachines ?status)),
                       consoleURL = asStringOrEmpty (?status ''consoleURL'')\<rparr>)"
    by blast
  then show ?thesis
    unfolding three m u example_addresses using none by simp
qed

text \<open>
  Claim C5 as stated asks only for a valid \<open>kubeconfig\<close> payload. The watcher also
  decodes \<open>talosconfig\<close>: with phase \<open>Ready\<close>, a valid \<open>kubeconfig\<close> and a
  \<open>talosconfig\<close> that is not base64 it returns an error, not credentials.
\<close>

theorem ready_with_valid_kubeconfig_counterexample:
  "NestedField readyBadTalosCB [''status'', ''phase''] = Some (JStr ''Ready'')
   \<and> NestedField readyBadTalosCB [''status'', ''kubeconfig''] = Some (JStr ''a3ViZQ=='')
   \<and> StdEncoding_DecodeString ''a3ViZQ=='' = Inr ''kube''
   \<and> fst (watchBootstrap script 3 (exampleConfig ''ha'' 3 2)
            (scriptOf [pendingCB, provisioningCB, readyBadTalosCB]))
       = Some (Inl (Wrap ''decoding talosconfig'' CorruptInputError))"
proof -
  let ?status = "[''phase'' \<mapsto> JStr ''Ready'', ''kubeconfig'' \<mapsto> JStr ''a3ViZQ=='',
                  ''talosconfig'' \<mapsto> JStr ''%%%'', ''machines'' \<mapsto> JList exampleMachines]"
  have a4: "readyBadTalosCB ''status'' = Some (JMap ?status)"
    by (simp add: readyBadTalosCB_def clusterBootstrapWith_def)
  have a5: "?status ''phase'' = Some (JStr ''Ready'')"
    by simp
  have three: "(2::nat) + Suc 0 = 3"
    by simp
  have r: "fst (watchBootstrapFrom script (2 + Suc 0) (exampleConfig ''ha'' 3 2) []
             (scriptOf [pendingCB, provisioningCB, readyBadTalosCB]))
           = Some (onReady script ?status (collectControlPlaneIPs (statusMachines ?status)))"
    using example_two_phases_then [of readyBadTalosCB]
      watchPass_Ready [OF example_last_pass(1) [where final = readyBadTalosCB]
                          example_last_pass(2) [where final = readyBadTalosCB] a4 a5]
    by (rule watchBootstrapFrom_returns)
  have o: "onReady script ?status ips = Inl (Wrap ''decoding talosconfig'' CorruptInputError)" for ips
    by (simp add: onReady_def decode_kube decode_bad)
  have p: "NestedField readyBadTalosCB [''status'', ''phase''] = Some (JStr ''Ready'')"
          "NestedField readyBadTalosCB [''status'', ''kubeconfig''] = Some (JStr ''a3ViZQ=='')"
    by (simp_all add: readyBadTalosCB_def clusterBootstrapWith_def)
  show ?thesis
    using r p unfolding three o watchBootstrap_def by (simp add: decode_kube)
qed

subsection \<open>Repairing the talosconfig\<close>

text \<open>What \<open>fixTalosconfigEndpoints\<close> returns once the context of the cluster is found.\<close>

lemma fixTalosconfigEndpoints_found:
  assumes "ips \<noteq> []"
      and "yaml_Unmarshal y talos = Inr config"
      and "config ''contexts'' = Some (JMap contexts)"
      and "contexts clusterName = Some (JMap contextConfig)"
  shows "fst (fixTalosconfigEndpoints y talos clusterName ips) =
     (case yaml_Marshal y
        (if (case asList (contextConfig ''endpoints'') of Some es \<Rightarrow> es | None \<Rightarrow> []) = [] then
           config(''contexts'' \<mapsto> JMap (contexts(clusterName \<mapsto> JMap
             (if stringsOf (case asList (contextConfig ''nodes'') of Some ns \<Rightarrow> ns | None \<Rightarrow> []) = []
              then contextConfig(''endpoints'' \<mapsto> JList (map JStr ips), ''nodes'' \<mapsto> JList (map JStr ips))
              else contextConfig(''endpoints'' \<mapsto> JList (map JStr ips))))))
         else config) of
        Inl e \<Rightarrow> talos
      | Inr fixed \<Rightarrow> fixed)"
  using assms
  by (simp add: fixTalosconfigEndpoints_def Let_def split: option.splits sum.splits)


lemma saveClusterCredentials_writes_repaired:
  assumes "fs_UserHomeDir f = Inr home"
      and "fs_MkdirAll f (fs_Join f home ''.butler'') 448 = None"
      and "fs_WriteFile f (fs_Join f (fs_Join f home ''.butler'') (clusterName @ ''-kubeconfig''))
             (kubeconfig creds) 384 = None"
  shows "last (snd (saveClusterCredentials f y clusterName creds)) =
           WriteFile (fs_Join f (fs_Join f home ''.butler'') (clusterName @ ''-talosconfig''))
             (fst (fixTalosconfigEndpoints y (talosconfig creds) clusterName (controlPlaneIPs creds))) 384"
  using assms
  by (simp add: saveClusterCredentials_def Let_def split: prod.splits option.splits)

text \<open>
  Claim C6. The repair of the talosconfig before it is written is non-destructive.
  Given control-plane addresses, a talosconfig that parses and a context for the cluster
  in it: when the endpoints of that context are missing or an empty list, the document
  that is marshalled back has, as the endpoints of that context, the control-plane
  addresses; when the endpoints are a non-empty list, the document that is marshalled
  back is the parsed document itself, nothing added and nothing overwritten. (When
  marshalling fails the input bytes are returned.)
\<close>

theorem talosconfig_repair_is_non_destructive:
  assumes "ips \<noteq> []"
      and "yaml_Unmarshal y talos = Inr config"
      and "config ''contexts'' = Some (JMap contexts)"
      and "contexts clusterName = Some (JMap contextConfig)"
  shows "(asList (contextConfig ''endpoints'') = None \<or> asList (contextConfig ''endpoints'') = Some [] \<longrightarrow>
            (\<exists>config'. fst (fixTalosconfigEndpoints y talos clusterName ips)
                          = (case yaml_Marshal y config' of Inl e \<Rightarrow> talos | Inr fixed \<Rightarrow> fixed)
                \<and> NestedField config' [''contexts'', clusterName, ''endpoints'']
                      = Some (JList (map JStr ips))))
       \<and> (\<forall>es. contextConfig ''endpoints'' = Some (JList es) \<and> es \<noteq> [] \<longrightarrow>
            fst (fixTalosconfigEndpoints y talos clusterName ips)
              = (case yaml_Marshal y config of Inl e \<Rightarrow> talos | Inr fixed \<Rightarrow> fixed))"
proof (intro conjI impI allI)
  assume e: "asList (contextConfig ''endpoints'') = None \<or> asList (contextConfig ''endpoints'') = Some []"
  let ?cc = "if stringsOf (case asList (contextConfig ''nodes'') of Some ns \<Rightarrow> ns | None \<Rightarrow> []) = []
             then contextConfig(''endpoints'' \<mapsto> JList (map JStr ips), ''nodes'' \<mapsto> JList (map JStr ips))
             else contextConfig(''endpoints'' \<mapsto> JList (map JStr ips))"
  let ?config' = "config(''contexts'' \<mapsto> JMap (contexts(clusterName \<mapsto> JMap ?cc)))"
  have "fst (fixTalosconfigEndpoints y talos clusterName ips)
          = (case yaml_Marshal y ?config' of Inl e \<Rightarrow> talos | Inr fixed \<Rightarrow> fixed)"
    using e by (auto simp: fixTalosconfigEndpoints_found [OF assms])
  moreover have "NestedField ?config' [''contexts'', clusterName, ''endpoints''] = Some (JList (map JStr ips))"
    by simp
  ultimately show "\<exists>config'. fst (fixTalosconfigEndpoints y talos clusterName ips)
                          = (case yaml_Marshal y config' of Inl e \<Rightarrow> talos | Inr fixed \<Rightarrow> fixed)
                \<and> NestedField config' [''contexts'', clusterName, ''endpoints'']
                      = Some (JList (map JStr ips))"
    by blast
next
  fix es
  assume "contextConfig ''endpoints'' = Some (JList es) \<and> es \<noteq> []"
  then show "fst (fixTalosconfigEndpoints y talos clusterName ips)
              = (case yaml_Marshal y config of Inl e \<Rightarrow> talos | Inr fixed \<Rightarrow> fixed)"
    by (simp add: fixTalosconfigEndpoints_found [OF assms])
qed

lemma example_unmarshal:
  "yaml_Unmarshal exampleYaml ''talosconfig without endpoints'' = Inr (talosDocument [])"
  "yaml_Unmarshal exampleYaml ''talosconfig with endpoint'' = Inr (talosDocument [JStr ''10.40.0.200''])"
  "yaml_Unmarshal exampleYaml ''not yaml'' = Inl (OtherError ''yaml: unknown document'')"
  by (simp_all add: exampleYaml_def)

lemma example_contexts:
  "talosDocument es ''contexts'' = Some (JMap [''mgmt'' \<mapsto> JMap [''endpoints'' \<mapsto> JList es, ''ca'' \<mapsto> JStr ''LS0t'']])"
  "[''mgmt'' \<mapsto> JMap [''endpoints'' \<mapsto> JList es, ''ca'' \<mapsto> JStr ''LS0t'']] ''mgmt''
     = Some (JMap [''endpoints'' \<mapsto> JList es, ''ca'' \<mapsto> JStr ''LS0t''])"
  by (simp_all add: talosDocument_def)

theorem talosconfig_repair_is_non_destructive_witness:
  "fst (fixTalosconfigEndpoints exampleYaml ''talosconfig without endpoints'' ''mgmt''
          [''10.40.0.11'', ''10.40.0.13'']) = ''10.40.0.11;10.40.0.13;''
   \<and> fst (fixTalosconfigEndpoints exampleYaml ''talosconfig with endpoint'' ''mgmt''
            [''10.40.0.11'', ''10.40.0.13'']) = ''10.40.0.200;''"
proof -
  have i: "[''10.40.0.11'', ''10.40.0.13''] \<noteq> ([] :: string list)"
    by simp
  note a = talosconfig_repair_is_non_destructive
             [OF i example_unmarshal(1) example_contexts(1) example_contexts(2)]
  note b = talosconfig_repair_is_non_destructive
             [OF i example_unmarshal(2) example_contexts(1) example_contexts(2)]
  from a obtain config' where
    "fst (fixTalosconfigEndpoints exampleYaml ''talosconfig without endpoints'' ''mgmt''
            [''10.40.0.11'', ''10.40.0.13''])
       = (case yaml_Marshal exampleYaml config' of Inl e \<Rightarrow> ''talosconfig without endpoints''
          | Inr fixed \<Rightarrow> fixed)"
    and "NestedField config' [''contexts'', ''mgmt'', ''endpoints'']
           = Some (JList (map JStr [''10.40.0.11'', ''10.40.0.13'']))"
    by auto
  then have 1: "fst (fixTalosconfigEndpoints exampleYaml ''talosconfig without endpoints'' ''mgmt''
                       [''10.40.0.11'', ''10.40.0.13'']) = ''10.40.0.11;10.40.0.13;''"
    by (simp add: exampleYaml_def NestedSlice_def)
  from b have 2: "fst (fixTalosconfigEndpoints exampleYaml ''talosconfig with endpoint'' ''mgmt''
                         [''10.40.0.11'', ''10.40.0.13'']) = ''10.40.0.200;''"
    by (simp add: exampleYaml_def NestedSlice_def talosDocument_def)
  from 1 2 show ?thesis by simp
qed


text \<open>
  Claim C10. \<open>fixTalosconfigEndpoints\<close> returns its input bytes unchanged when there
  is no control-plane address, when the talosconfig does not parse, when the parsed
  document has no \<open>contexts\<close> map, and when \<open>contexts\<close> has no map for the cluster.
  When it repairs missing or empty endpoints and the context has no \<open>nodes\<close> entry, the
  document it marshals has both the endpoints and the nodes of the context set to the
  control-plane addresses.
\<close>

theorem fixTalosconfigEndpoints_frame:
  "(ips = [] \<longrightarrow> fixTalosconfigEndpoints y talos clusterName ips = (talos, []))
   \<and> (\<forall>e. yaml_Unmarshal y talos = Inl e \<longrightarrow>
          fst (fixTalosconfigEndpoints y talos clusterName ips) = talos)
   \<and> (\<forall>config. yaml_Unmarshal y talos = Inr config \<and> asMap (config ''contexts'') = None \<longrightarrow>
          fst (fixTalosconfigEndpoints y talos clusterName ips) = talos)
   \<and> (\<forall>config contexts. yaml_Unmarshal y talos = Inr config
          \<and> config ''contexts'' = Some (JMap contexts) \<and> asMap (contexts clusterName) = None \<longrightarrow>
          fst (fixTalosconfigEndpoints y talos clusterName ips) = talos)
   \<and> (\<forall>config contexts contextConfig. ips \<noteq> [] \<and> yaml_Unmarshal y talos = Inr config
          \<and> config ''contexts'' = Some (JMap contexts)
          \<and> contexts clusterName = Some (JMap contextConfig)
          \<and> (asList (contextConfig ''endpoints'') = None \<or> asList (contextConfig ''endpoints'') = Some [])
          \<and> contextConfig ''nodes'' = None \<longrightarrow>
          fst (fixTalosconfigEndpoints y talos clusterName ips) =
            (case yaml_Marshal y
               (config(''contexts'' \<mapsto> JMap (contexts(clusterName \<mapsto> JMap
                  (contextConfig(''endpoints'' \<mapsto> JList (map JStr ips),
                                 ''nodes'' \<mapsto> JList (map JStr ips))))))) of
               Inl e \<Rightarrow> talos
             | Inr fixed \<Rightarrow> fixed))"
proof (intro conjI impI allI)
  assume "ips = []"
  then show "fixTalosconfigEndpoints y talos clusterName ips = (talos, [])"
    by (simp add: fixTalosconfigEndpoints_def)
next
  fix e assume "yaml_Unmarshal y talos = Inl e"
  then show "fst (fixTalosconfigEndpoints y talos clusterName ips) = talos"
    by (simp add: fixTalosconfigEndpoints_def)
next
  fix config assume "yaml_Unmarshal y talos = Inr config \<and> asMap (config ''contexts'') = None"
  then show "fst (fixTalosconfigEndpoints y talos clusterName ips) = talos"
    by (simp add: fixTalosconfigEndpoints_def)
next
  fix config contexts
  assume "yaml_Unmarshal y talos = Inr config
          \<and> config ''contexts'' = Some (JMap contexts) \<and> asMap (contexts clusterName) = None"
  then show "fst (fixTalosconfigEndpoints y talos clusterName ips) = talos"
    by (simp add: fixTalosconfigEndpoints_def)
next
  fix config contexts contextConfig
  assume a: "ips \<noteq> [] \<and> yaml_Unmarshal y talos = Inr config
          \<and> config ''contexts'' = Some (JMap contexts)
          \<and> contexts clusterName = Some (JMap contextConfig)
          \<and> (asList (contextConfig ''endpoints'') = None \<or> asList (contextConfig ''endpoints'') = Some [])
          \<and> contextConfig ''nodes'' = None"
  then have f: "ips \<noteq> []" "yaml_Unmarshal y talos = Inr config"
      "config ''contexts'' = Some (JMap contexts)" "contexts clusterName = Some (JMap contextConfig)"
    by simp_all
  from a show "fst (fixTalosconfigEndpoints y talos clusterName ips) =
            (case yaml_Marshal y
               (config(''contexts'' \<mapsto> JMap (contexts(clusterName \<mapsto> JMap
                  (contextConfig(''endpoints'' \<mapsto> JList (map JStr ips),
                                 ''nodes'' \<mapsto> JList (map JStr ips))))))) of
               Inl e \<Rightarrow> talos
             | Inr fixed \<Rightarrow> fixed)"
    by (auto simp: fixTalosconfigEndpoints_found [OF f])
qed

text \<open>
  The toy library writes only endpoints; this one writes the nodes of the cluster, so
  that the added \<open>nodes\<close> entry shows.
\<close>

theorem fixTalosconfigEndpoints_frame_witness:
  "fixTalosconfigEndpoints exampleYaml ''talosconfig without endpoints'' ''mgmt'' []
     = (''talosconfig without endpoints'', [])
   \<and> fst (fixTalosconfigEndpoints exampleYaml ''not yaml'' ''mgmt'' [''10.40.0.11'']) = ''not yaml''
   \<and> fst (fixTalosconfigEndpoints (exampleYaml\<lparr>yaml_Unmarshal := (\<lambda>doc. Inr Map.empty)\<rparr>)
            ''{}'' ''mgmt'' [''10.40.0.11'']) = ''{}''
   \<and> fst (fixTalosconfigEndpoints exampleYaml ''talosconfig without endpoints'' ''other''
            [''10.40.0.11'']) = ''talosconfig without endpoints''
   \<and> fst (fixTalosconfigEndpoints
            (exampleYaml\<lparr>yaml_Marshal := (\<lambda>ob.
               Inr (concat (map (\<lambda>e. e @ '';'')
                      (stringsOf (case NestedSlice ob [''contexts'', ''mgmt'', ''nodes''] of
                                    Some ns \<Rightarrow> ns | None \<Rightarrow> [])))))\<rparr>)
            ''talosconfig without endpoints'' ''mgmt'' [''10.40.0.11'', ''10.40.0.13''])
       = ''10.40.0.11;10.40.0.13;''"
proof -
  let ?y3 = "exampleYaml\<lparr>yaml_Unmarshal := (\<lambda>doc. Inr Map.empty)\<rparr>"
  let ?y5 = "exampleYaml\<lparr>yaml_Marshal := (\<lambda>ob.
               Inr (concat (map (\<lambda>e. e @ '';'')
                      (stringsOf (case NestedSlice ob [''contexts'', ''mgmt'', ''nodes''] of
                                    Some ns \<Rightarrow> ns | None \<Rightarrow> [])))))\<rparr>"
  have 1: "fixTalosconfigEndpoints exampleYaml ''talosconfig without endpoints'' ''mgmt'' []
             = (''talosconfig without endpoints'', [])"
    using fixTalosconfigEndpoints_frame
            [of "[]" exampleYaml "''talosconfig without endpoints''" "''mgmt''"]
    by simp
  have 2: "fst (fixTalosconfigEndpoints exampleYaml ''not yaml'' ''mgmt'' [''10.40.0.11'']) = ''not yaml''"
    using fixTalosconfigEndpoints_frame [of "[''10.40.0.11'']" exampleYaml "''not yaml''" "''mgmt''"]
      example_unmarshal(3)
    by blast
  have u3: "yaml_Unmarshal ?y3 ''{}'' = Inr Map.empty \<and> asMap ((Map.empty :: obj) ''contexts'') = None"
    by simp
  have 3: "fst (fixTalosconfigEndpoints ?y3 ''{}'' ''mgmt'' [''10.40.0.11'']) = ''{}''"
    using fixTalosconfigEndpoints_frame [of "[''10.40.0.11'']" ?y3 "''{}''" "''mgmt''"] u3
    by blast
  have u4: "yaml_Unmarshal exampleYaml ''talosconfig without endpoints'' = Inr (talosDocument [])
            \<and> talosDocument [] ''contexts''
                 = Some (JMap [''mgmt'' \<mapsto> JMap [''endpoints'' \<mapsto> JList [], ''ca'' \<mapsto> JStr ''LS0t'']])
            \<and> asMap ([''mgmt'' \<mapsto> JMap [''endpoints'' \<mapsto> JList [], ''ca'' \<mapsto> JStr ''LS0t'']] ''other'') = None"
    by (simp add: example_unmarshal example_contexts)
  have 4: "fst (fixTalosconfigEndpoints exampleYaml ''talosconfig without endpoints'' ''other''
                  [''10.40.0.11'']) = ''talosconfig without endpoints''"
    using fixTalosconfigEndpoints_frame
            [of "[''10.40.0.11'']" exampleYaml "''talosconfig without endpoints''" "''other''"] u4
    by blast
  have u5: "[''10.40.0.11'', ''10.40.0.13''] \<noteq> ([] :: string list)
            \<and> yaml_Unmarshal ?y5 ''talosconfig without endpoints'' = Inr (talosDocument [])
            \<and> talosDocument [] ''contexts''
                 = Some (JMap [''mgmt'' \<mapsto> JMap [''endpoints'' \<mapsto> JList [], ''ca'' \<mapsto> JStr ''LS0t'']])
            \<and> [''mgmt'' \<mapsto> JMap [''endpoints'' \<mapsto> JList [], ''ca'' \<mapsto> JStr ''LS0t'']] ''mgmt''
                 = Some (JMap [''endpoints'' \<mapsto> JList [], ''ca'' \<mapsto> JStr ''LS0t''])
            \<and> (asList ([''endpoints'' \<mapsto> JList [], ''ca'' \<mapsto> JStr ''LS0t''] ''endpoints'') = None
                \<or> asList ([''endpoints'' \<mapsto> JList [], ''ca'' \<mapsto> JStr ''LS0t''] ''endpoints'') = Some [])
            \<and> [''endpoints'' \<mapsto> JList [], ''ca'' \<mapsto> JStr ''LS0t''] ''nodes'' = None"
    by (simp add: example_unmarshal example_contexts)
  let ?cc = "[''endpoints'' \<mapsto> JList [], ''ca'' \<mapsto> JStr ''LS0t'']"
  let ?ctxs = "[''mgmt'' \<mapsto> JMap ?cc]"
  let ?doc = "talosDocument []"
  let ?ips = "JList (map JStr [''10.40.0.11'', ''10.40.0.13''])"
  have "fst (fixTalosconfigEndpoints ?y5 ''talosconfig without endpoints'' ''mgmt''
               [''10.40.0.11'', ''10.40.0.13'']) =
          (case yaml_Marshal ?y5
             (?doc(''contexts'' \<mapsto> JMap (?ctxs(''mgmt'' \<mapsto> JMap (?cc(''endpoints'' \<mapsto> ?ips, ''nodes'' \<mapsto> ?ips)))))) of
             Inl e \<Rightarrow> ''talosconfig without endpoints''
           | Inr fixed \<Rightarrow> fixed)"
    using fixTalosconfigEndpoints_frame
            [of "[''10.40.0.11'', ''10.40.0.13'']" ?y5 "''talosconfig without endpoints''" "''mgmt''"] u5
    by blast
  then have 5: "fst (fixTalosconfigEndpoints ?y5 ''talosconfig without endpoints'' ''mgmt''
               [''10.40.0.11'', ''10.40.0.13'']) = ''10.40.0.11;10.40.0.13;''"
    by (simp add: NestedSlice_def)
  from 1 2 3 4 5 show ?thesis
    by simp
qed

subsection \<open>Cancellation and pacing of the polling loops\<close>

text \<open>Iterations that did not leave the loop are behind, as for the watcher.\<close>

lemma WaitForCRD_continues:
  "WaitForCRD env k name w0 = (None, w) \<Longrightarrow>
   WaitForCRD env (k + n) name w0 = WaitForCRD env n name w"
proof (induction k arbitrary: w0)
  case 0
  then show ?case by simp
next
  case (Suc k)
  then show ?case
    by (auto split: option.splits sum.splits prod.splits if_splits)
qed

lemma WaitForDeployment_continues:
  "WaitForDeployment env k ns name w0 = (None, w) \<Longrightarrow>
   WaitForDeployment env (k + n) ns name w0 = WaitForDeployment env n ns name w"
proof (induction k arbitrary: w0)
  case 0
  then show ?case by simp
next
  case (Suc k)
  then show ?case
    by (auto simp: Let_def split: option.splits sum.splits prod.splits if_splits)
qed

lemma WaitForCRDs_append:
  "WaitForCRDs env n (xs @ ys) w0 =
     (case WaitForCRDs env n xs w0 of
        (Some None, w1) \<Rightarrow> WaitForCRDs env n ys w1
      | (r, w1) \<Rightarrow> (r, w1))"
  by (induction xs arbitrary: w0) (auto split: option.splits prod.splits)

text \<open>The only error the readiness loops return is the one of the context.\<close>

lemma WaitForCRD_error:
  "WaitForCRD env n name w0 = (Some (Some e), w) \<Longrightarrow> ctx_Err env w = Some e"
proof (induction n arbitrary: w0)
  case 0
  then show ?case by simp
next
  case (Suc n)
  then show ?case
    by (auto split: option.splits sum.splits prod.splits if_splits)
qed

lemma WaitForCRDs_error:
  "WaitForCRDs env n names w0 = (Some (Some e), w) \<Longrightarrow> ctx_Err env w = Some e"
proof (induction names arbitrary: w0)
  case Nil
  then show ?case by simp
next
  case (Cons name names)
  then show ?case
    by (auto split: option.splits prod.splits dest: WaitForCRD_error)
qed

lemma WaitForDeployment_error:
  "WaitForDeployment env n ns name w0 = (Some (Some e), w) \<Longrightarrow> ctx_Err env w = Some e"
proof (induction n arbitrary: w0)
  case 0
  then show ?case by simp
next
  case (Suc n)
  then show ?case
    by (auto simp: Let_def split: option.splits sum.splits prod.splits if_splits)
qed


lemma WaitForCRDs_cancelled:
  assumes "WaitForCRDs env N established w0 = (Some None, w1)"
      and "WaitForCRD env k name w1 = (None, w)"
      and "k < N"
      and "ctx_Err env w = Some e"
  shows "WaitForCRDs env N (established @ name # rest) w0 = (Some (Some e), w)"
proof -
  from less_imp_Suc_add [OF assms(3)] obtain n where N: "N = k + Suc n"
    by auto
  have "WaitForCRD env N name w1 = WaitForCRD env (Suc n) name w"
    unfolding N by (rule WaitForCRD_continues [OF assms(2)])
  then have "WaitForCRD env N name w1 = (Some (Some e), w)"
    using assms(4) by simp
  then show ?thesis
    using assms(1) by (simp add: WaitForCRDs_append)
qed

text \<open>
  Claim C7. Every polling loop tests the context at the start of each iteration and,
  when the context is done, returns the context's own error, unwrapped. After any
  number of iterations that did not leave the loop: if \<open>ctx.Err()\<close> is \<open>e\<close>,
  \<open>WaitForCRDs\<close> (whatever names were already established and whatever names remain)
  and \<open>WaitForDeployment\<close> return \<open>e\<close>; if the watcher's \<open>select\<close> takes the
  \<open>ctx.Done()\<close> branch with \<open>ctx.Err() = e\<close>, \<open>watchBootstrap\<close> returns \<open>e\<close>.
  Moreover the two readiness loops return no error of their own: an error they return is
  the error of the context at that moment.
\<close>

theorem polling_loops_return_context_error:
  "(WaitForCRDs env N established w0 = (Some None, w1) \<and> WaitForCRD env k name w1 = (None, w)
      \<and> k < N \<and> ctx_Err env w = Some e \<longrightarrow>
      WaitForCRDs env N (established @ name # rest) w0 = (Some (Some e), w))
   \<and> (WaitForDeployment env k ns name w0 = (None, w) \<and> ctx_Err env w = Some e \<longrightarrow>
      WaitForDeployment env (k + Suc n) ns name w0 = (Some (Some e), w))
   \<and> (watchBootstrapFrom env k cfg lp0 w0 = (None, w, ev) \<and> select_Done_or_Tick env w = (Some e, w') \<longrightarrow>
      fst (watchBootstrapFrom env (k + Suc n) cfg lp0 w0) = Some (Inl e))
   \<and> (WaitForCRDs env N names w0 = (Some (Some e), w) \<longrightarrow> ctx_Err env w = Some e)
   \<and> (WaitForDeployment env N ns name w0 = (Some (Some e), w) \<longrightarrow> ctx_Err env w = Some e)"
proof (intro conjI impI)
  assume a: "WaitForCRDs env N established w0 = (Some None, w1) \<and> WaitForCRD env k name w1 = (None, w)
      \<and> k < N \<and> ctx_Err env w = Some e"
  then have a1: "WaitForCRDs env N established w0 = (Some None, w1)"
    and a2: "WaitForCRD env k name w1 = (None, w)" and a3: "k < N" and a4: "ctx_Err env w = Some e"
    by simp_all
  show "WaitForCRDs env N (established @ name # rest) w0 = (Some (Some e), w)"
    by (rule WaitForCRDs_cancelled [OF a1 a2 a3 a4])
next
  assume a: "WaitForDeployment env k ns name w0 = (None, w) \<and> ctx_Err env w = Some e"
  then have "WaitForDeployment env k ns name w0 = (None, w)"
    by simp
  then have "WaitForDeployment env (k + Suc n) ns name w0 = WaitForDeployment env (Suc n) ns name w"
    by (rule WaitForDeployment_continues)
  then show "WaitForDeployment env (k + Suc n) ns name w0 = (Some (Some e), w)"
    using a by simp
next
  assume a: "watchBootstrapFrom env k cfg lp0 w0 = (None, w, ev) \<and> select_Done_or_Tick env w = (Some e, w')"
  then have p: "\<And>lp. \<exists>ev. watchPass env cfg lp w = Return (Inl e) w' ev"
    by (simp add: watchPass_Done)
  from a have "watchBootstrapFrom env k cfg lp0 w0 = (None, w, ev)"
    by simp
  then show "fst (watchBootstrapFrom env (k + Suc n) cfg lp0 w0) = Some (Inl e)"
    using p by (rule watchBootstrapFrom_returns)
next
  assume "WaitForCRDs env N names w0 = (Some (Some e), w)"
  then show "ctx_Err env w = Some e"
    by (rule WaitForCRDs_error)
next
  assume "WaitForDeployment env N ns name w0 = (Some (Some e), w)"
  then show "ctx_Err env w = Some e"
    by (rule WaitForDeployment_error)
qed

text \<open>The scripted world, one iteration of each loop at a time.\<close>

lemma scripted_moment:
  "ctx_Err script \<lparr>moments = m # ms, calls = cs\<rparr> = m_ctx m"
  "dyn_Get script gvr ns name \<lparr>moments = m # ms, calls = cs\<rparr>
     = (m_get m, \<lparr>moments = ms, calls = cs @ [ActGet gvr ns name]\<rparr>)"
  "select_Done_or_Tick script \<lparr>moments = m # ms, calls = cs\<rparr>
     = (m_ctx m, \<lparr>moments = m # ms, calls = cs @ [ActWait]\<rparr>)"
  "ctx_Err script \<lparr>moments = [], calls = cs\<rparr> = Some ContextDeadlineExceeded"
  by (simp_all add: scripted_ctx_def scripted_Get_def)

lemma deploymentNotReady_counts:
  "NestedInt64 deploymentNotReady [''spec'', ''replicas''] = 1"
  "NestedInt64 deploymentNotReady [''status'', ''readyReplicas''] = 0"
  by (simp_all add: NestedInt64_def deploymentNotReady_def)

lemma crdNotEstablished_conditions:
  "NestedSlice crdNotEstablished [''status'', ''conditions'']
     = Some [JMap [''type'' \<mapsto> JStr ''Established'', ''status'' \<mapsto> JStr ''False'']]"
  by (simp add: NestedSlice_def crdNotEstablished_def)

lemma example_deployment_wait:
  "WaitForDeployment script 1 ns name \<lparr>moments = \<lparr>m_ctx = None, m_get = Inr deploymentNotReady\<rparr> # ms, calls = cs\<rparr>
     = (None, \<lparr>moments = ms, calls = cs @ [ActGet deployGVR ns name]\<rparr>)"
  by (simp only: One_nat_def WaitForDeployment.simps scripted_moment moment.simps option.case
        prod.case sum.case Let_def deploymentNotReady_counts)
     (simp add: word_sle_eq word_sless_alt)

lemma example_crd_wait:
  "WaitForCRD script 1 name \<lparr>moments = \<lparr>m_ctx = None, m_get = Inr crdNotEstablished\<rparr> # ms, calls = cs\<rparr>
     = (None, \<lparr>moments = ms, calls = cs @ [ActGet crdGVR [] name]\<rparr>)"
  by (simp only: One_nat_def WaitForCRD.simps scripted_moment moment.simps option.case
        prod.case sum.case crdNotEstablished_conditions)
     simp


theorem polling_loops_return_context_error_witness:
  "WaitForDeployment script 2 butlerNamespace ''butler-bootstrap-controller''
     (cancelledAfter [deploymentNotReady])
     = (Some (Some ContextCanceled),
        \<lparr>moments = [\<lparr>m_ctx = Some ContextCanceled, m_get = Inl ContextCanceled\<rparr>],
          calls = [ActGet deployGVR butlerNamespace ''butler-bootstrap-controller'']\<rparr>)
   \<and> WaitForCRDs script 2 [''clusterbootstraps.butler.butlerlabs.dev''] (cancelledAfter [crdNotEstablished])
     = (Some (Some ContextCanceled),
        \<lparr>moments = [\<lparr>m_ctx = Some ContextCanceled, m_get = Inl ContextCanceled\<rparr>],
          calls = [ActGet crdGVR [] ''clusterbootstraps.butler.butlerlabs.dev'']\<rparr>)
   \<and> fst (watchBootstrapFrom script 2 (exampleConfig ''ha'' 3 2) [] (cancelledAfter [pendingCB]))
     = Some (Inl ContextCanceled)"
proof -
  let ?c = "\<lparr>m_ctx = Some ContextCanceled, m_get = Inl ContextCanceled\<rparr>"
  let ?wd = "\<lparr>moments = [?c], calls = [ActGet deployGVR butlerNamespace ''butler-bootstrap-controller'']\<rparr>"
  let ?wc = "\<lparr>moments = [?c], calls = [ActGet crdGVR [] ''clusterbootstraps.butler.butlerlabs.dev'']\<rparr>"
  have two: "(1::nat) + Suc 0 = 2"
    by simp
  have d1: "WaitForDeployment script 1 butlerNamespace ''butler-bootstrap-controller''
              (cancelledAfter [deploymentNotReady]) = (None, ?wd)"
    using example_deployment_wait [of butlerNamespace "''butler-bootstrap-controller''" "[?c]" "[]"]
    by (simp only: cancelledAfter_def list.map append.simps)
  have d2: "ctx_Err script ?wd = Some ContextCanceled"
    by (simp add: scripted_ctx_def)
  have c0: "WaitForCRDs script 2 [] (cancelledAfter [crdNotEstablished])
              = (Some None, cancelledAfter [crdNotEstablished])"
    by simp
  have c1: "WaitForCRD script 1 ''clusterbootstraps.butler.butlerlabs.dev''
              (cancelledAfter [crdNotEstablished]) = (None, ?wc)"
    using example_crd_wait [of "''clusterbootstraps.butler.butlerlabs.dev''" "[?c]" "[]"]
    by (simp only: cancelledAfter_def list.map append.simps)
  have c2: "ctx_Err script ?wc = Some ContextCanceled"
    by (simp add: scripted_ctx_def)
  have w1: "watchBootstrapFrom script 1 (exampleConfig ''ha'' 3 2) [] (cancelledAfter [pendingCB])
              = (None,
                 \<lparr>moments = [?c], calls = [ActWait, ActGet clusterBootstrapGVR butlerNamespace ''mgmt'']\<rparr>,
                 [Log LInfo ''phase changed'' [(''phase'', VStr ''Pending'')]])"
    by (simp add: watchPass_def scripted_Get_def scripted_ctx_def cancelledAfter_def
          pendingCB_def clusterBootstrapWith_def statusMachines_def exampleConfig_def
          withEvents_def Let_def)
  have w2: "select_Done_or_Tick script
              \<lparr>moments = [?c], calls = [ActWait, ActGet clusterBootstrapGVR butlerNamespace ''mgmt'']\<rparr>
            = (Some ContextCanceled,
               \<lparr>moments = [?c],
                 calls = [ActWait, ActGet clusterBootstrapGVR butlerNamespace ''mgmt''] @ [ActWait]\<rparr>)"
    by (simp add: scripted_ctx_def)
  have lt: "(1::nat) < 2"
    by simp
  from polling_loops_return_context_error
         [of script 2 "[]" "cancelledAfter [crdNotEstablished]" "cancelledAfter [crdNotEstablished]"
             1 "''clusterbootstraps.butler.butlerlabs.dev''" ?wc ContextCanceled "[]"]
       c0 c1 c2 lt
  have rc: "WaitForCRDs script 2 ([] @ [''clusterbootstraps.butler.butlerlabs.dev''])
              (cancelledAfter [crdNotEstablished]) = (Some (Some ContextCanceled), ?wc)"
    by blast
  from polling_loops_return_context_error
         [where env = script and k = 1 and ns = butlerNamespace and name = "''butler-bootstrap-controller''"
            and ?w0.0 = "cancelledAfter [deploymentNotReady]" and w = ?wd and e = ContextCanceled and n = 0]
       d1 d2
  have rd: "WaitForDeployment script (1 + Suc 0) butlerNamespace ''butler-bootstrap-controller''
              (cancelledAfter [deploymentNotReady]) = (Some (Some ContextCanceled), ?wd)"
    by blast
  from polling_loops_return_context_error
         [where env = script and k = 1 and cfg = "exampleConfig ''ha'' 3 2" and ?lp0.0 = "[]"
            and ?w0.0 = "cancelledAfter [pendingCB]" and e = ContextCanceled and n = 0] w1 w2
  have rw: "fst (watchBootstrapFrom script (1 + Suc 0) (exampleConfig ''ha'' 3 2) []
              (cancelledAfter [pendingCB])) = Some (Inl ContextCanceled)"
    by blast
  from rc rd rw show ?thesis
    unfolding two by simp
qed

text \<open>On the scripted world the readiness loops never wait: all they do is read.\<close>

lemma scripted_Get_no_wait:
  "dyn_Get script gvr ns name s = (r, s1) \<Longrightarrow> ActWait \<notin> set (calls s) \<Longrightarrow> ActWait \<notin> set (calls s1)"
  by (auto simp: scripted_Get_def split: list.splits)

lemma WaitForDeployment_never_waits:
  "ActWait \<notin> set (calls s) \<Longrightarrow>
   ActWait \<notin> set (calls (snd (WaitForDeployment script n ns name s)))"
proof (induction n arbitrary: s)
  case 0
  then show ?case by simp
next
  case (Suc n)
  obtain r s1 where g: "dyn_Get script deployGVR ns name s = (r, s1)"
    by (cases "dyn_Get script deployGVR ns name s")
  have c: "ActWait \<notin> set (calls s1)"
    using g Suc.prems by (rule scripted_Get_no_wait)
  have ih: "ActWait \<notin> set (calls (snd (WaitForDeployment script n ns name s1)))"
    using c by (rule Suc.IH)
  show ?case
    using Suc.prems g c ih
    by (cases "ctx_Err script s"; cases r) (simp_all add: Let_def)
qed

lemma WaitForCRD_never_waits:
  "ActWait \<notin> set (calls s) \<Longrightarrow>
   ActWait \<notin> set (calls (snd (WaitForCRD script n name s)))"
proof (induction n arbitrary: s)
  case 0
  then show ?case by simp
next
  case (Suc n)
  obtain r s1 where g: "dyn_Get script crdGVR [] name s = (r, s1)"
    by (cases "dyn_Get script crdGVR [] name s")
  have c: "ActWait \<notin> set (calls s1)"
    using g Suc.prems by (rule scripted_Get_no_wait)
  have ih: "ActWait \<notin> set (calls (snd (WaitForCRD script n name s1)))"
    using c by (rule Suc.IH)
  show ?case
    using Suc.prems g c ih
    by (cases "ctx_Err script s"; cases r) (simp_all split: option.splits)
qed

lemma WaitForCRDs_never_waits:
  "ActWait \<notin> set (calls s) \<Longrightarrow>
   ActWait \<notin> set (calls (snd (WaitForCRDs script n names s)))"
proof (induction names arbitrary: s)
  case Nil
  then show ?case by simp
next
  case (Cons name names)
  obtain r s1 where w: "WaitForCRD script n name s = (r, s1)"
    by (cases "WaitForCRD script n name s")
  have c: "ActWait \<notin> set (calls s1)"
    using WaitForCRD_never_waits [OF Cons.prems, of n name] w by simp
  have ih: "ActWait \<notin> set (calls (snd (WaitForCRDs script n names s1)))"
    using c by (rule Cons.IH)
  show ?case
    using w c ih by (auto split: option.splits)
qed

text \<open>
  Claim C2 asks every readiness loop to pause between two checks of the API server.
  The two loops of the deployer do not: their \<open>select\<close> has a \<open>default\<close> branch, so
  it never blocks, and an iteration that is not satisfied goes straight to the next
  read. On the scripted world: with a deployment that is not ready twice, and with a
  definition that is not established twice, each loop reads twice in a row, nothing in
  between, until the context ends it; the watcher, which has a ticker, waits before
  every read.
\<close>

theorem readiness_loops_read_back_to_back:
  "WaitForDeployment script 3 butlerNamespace ''butler-bootstrap-controller''
     (scriptOf [deploymentNotReady, deploymentNotReady])
     = (Some (Some ContextDeadlineExceeded),
        \<lparr>moments = [],
          calls = [ActGet deployGVR butlerNamespace ''butler-bootstrap-controller'',
                   ActGet deployGVR butlerNamespace ''butler-bootstrap-controller'']\<rparr>)
   \<and> WaitForCRDs script 3 [''clusterbootstraps.butler.butlerlabs.dev'']
       (scriptOf [crdNotEstablished, crdNotEstablished])
     = (Some (Some ContextDeadlineExceeded),
        \<lparr>moments = [],
          calls = [ActGet crdGVR [] ''clusterbootstraps.butler.butlerlabs.dev'',
                   ActGet crdGVR [] ''clusterbootstraps.butler.butlerlabs.dev'']\<rparr>)
   \<and> calls (fst (snd (watchBootstrap script 3 (exampleConfig ''ha'' 3 2)
                        (scriptOf [pendingCB, provisioningCB]))))
     = [ActWait, ActGet clusterBootstrapGVR butlerNamespace ''mgmt'',
        ActWait, ActGet clusterBootstrapGVR butlerNamespace ''mgmt'',
        ActWait]"
proof -
  let ?d = "\<lparr>m_ctx = None, m_get = Inr deploymentNotReady\<rparr>"
  let ?c = "\<lparr>m_ctx = None, m_get = Inr crdNotEstablished\<rparr>"
  let ?gd = "ActGet deployGVR butlerNamespace ''butler-bootstrap-controller''"
  let ?gc = "ActGet crdGVR [] ''clusterbootstraps.butler.butlerlabs.dev''"
  have three: "(3::nat) = 1 + (1 + Suc 0)"
    by simp
  have d1: "WaitForDeployment script 1 butlerNamespace ''butler-bootstrap-controller''
              \<lparr>moments = [?d, ?d], calls = []\<rparr> = (None, \<lparr>moments = [?d], calls = [?gd]\<rparr>)"
    using example_deployment_wait [of butlerNamespace "''butler-bootstrap-controller''" "[?d]" "[]"]
    by (simp only: append.simps)
  have d2: "WaitForDeployment script 1 butlerNamespace ''butler-bootstrap-controller''
              \<lparr>moments = [?d], calls = [?gd]\<rparr> = (None, \<lparr>moments = [], calls = [?gd, ?gd]\<rparr>)"
    using example_deployment_wait [of butlerNamespace "''butler-bootstrap-controller''" "[]" "[?gd]"]
    by (simp only: append.simps)
  have d3: "WaitForDeployment script (Suc 0) butlerNamespace ''butler-bootstrap-controller''
              \<lparr>moments = [], calls = [?gd, ?gd]\<rparr>
            = (Some (Some ContextDeadlineExceeded), \<lparr>moments = [], calls = [?gd, ?gd]\<rparr>)"
    by (simp add: scripted_ctx_def)
  have d: "WaitForDeployment script 3 butlerNamespace ''butler-bootstrap-controller''
             (scriptOf [deploymentNotReady, deploymentNotReady])
           = (Some (Some ContextDeadlineExceeded), \<lparr>moments = [], calls = [?gd, ?gd]\<rparr>)"
    unfolding three scriptOf_def list.map
    by (simp only: WaitForDeployment_continues [OF d1] WaitForDeployment_continues [OF d2] d3)
  have c1: "WaitForCRD script 1 ''clusterbootstraps.butler.butlerlabs.dev''
              \<lparr>moments = [?c, ?c], calls = []\<rparr> = (None, \<lparr>moments = [?c], calls = [?gc]\<rparr>)"
    using example_crd_wait [of "''clusterbootstraps.butler.butlerlabs.dev''" "[?c]" "[]"]
    by (simp only: append.simps)
  have c2: "WaitForCRD script 1 ''clusterbootstraps.butler.butlerlabs.dev''
              \<lparr>moments = [?c], calls = [?gc]\<rparr> = (None, \<lparr>moments = [], calls = [?gc, ?gc]\<rparr>)"
    using example_crd_wait [of "''clusterbootstraps.butler.butlerlabs.dev''" "[]" "[?gc]"]
    by (simp only: append.simps)
  have c3: "WaitForCRD script (Suc 0) ''clusterbootstraps.butler.butlerlabs.dev''
              \<lparr>moments = [], calls = [?gc, ?gc]\<rparr>
            = (Some (Some ContextDeadlineExceeded), \<lparr>moments = [], calls = [?gc, ?gc]\<rparr>)"
    by (simp add: scripted_ctx_def)
  have c4: "WaitForCRD script 3 ''clusterbootstraps.butler.butlerlabs.dev''
              \<lparr>moments = [?c, ?c], calls = []\<rparr>
            = (Some (Some ContextDeadlineExceeded), \<lparr>moments = [], calls = [?gc, ?gc]\<rparr>)"
    unfolding three
    by (simp only: WaitForCRD_continues [OF c1] WaitForCRD_continues [OF c2] c3)
  have c: "WaitForCRDs script 3 [''clusterbootstraps.butler.butlerlabs.dev'']
             (scriptOf [crdNotEstablished, crdNotEstablished])
           = (Some (Some ContextDeadlineExceeded), \<lparr>moments = [], calls = [?gc, ?gc]\<rparr>)"
    unfolding scriptOf_def list.map
    by (simp only: WaitForCRDs.simps c4 prod.case option.case)
  have w: "calls (fst (snd (watchBootstrap script 3 (exampleConfig ''ha'' 3 2)
                        (scriptOf [pendingCB, provisioningCB]))))
     = [ActWait, ActGet clusterBootstrapGVR butlerNamespace ''mgmt'',
        ActWait, ActGet clusterBootstrapGVR butlerNamespace ''mgmt'',
        ActWait]"
    by (simp add: watchBootstrap_def numeral_3_eq_3 watchPass_def scripted_Get_def scripted_ctx_def
          scriptOf_def pendingCB_def provisioningCB_def clusterBootstrapWith_def statusMachines_def
          exampleConfig_def withEvents_def Let_def)
  from d c w show ?thesis
    by simp
qed

end
